theory Spec2Isabelle
  imports Main
begin

section \<open>The data model of \<open>src/math/ndarray.ts\<close>\<close>

text \<open>
  The dimensions of a shape, the sizes and the indices that a caller passes are integers,
  \<open>int\<close>; what the code computes from them with \<open>*\<close> and \<open>+\<close>, the strides and the
  offsets, are doubles, \<open>number\<close> below. The element type of a host buffer is a type
  parameter \<open>'a\<close>: the conversion of a JavaScript number to a buffer element at a store
  is outside the model.
  \<open>null\<close>/\<open>undefined\<close> is \<open>None\<close>. Every \<open>throw\<close> is a value of \<open>error\<close>;
  an operation returns its result together with the state it leaves behind, also when
  it throws.
\<close>

text \<open>The keys of the interface \<open>DataType\<close> and the buffer class each key maps to.\<close>

datatype DataTypeKey = float32 | int32 | bool

datatype TypedArrayKind = Float32Array | Int32Array | Uint8Array

fun DataType :: "DataTypeKey \<Rightarrow> TypedArrayKind" where
  "DataType float32 = Float32Array"
| "DataType int32 = Int32Array"
| "DataType bool = Uint8Array"

record 'a TypedArray =
  kind :: TypedArrayKind
  elems :: "'a list"

type_synonym WebGLTexture = nat

text \<open>The interface \<open>NDArrayData\<close>: three optional fields.\<close>

record 'a NDArrayData =
  hostValues :: "'a TypedArray option"
  texture :: "WebGLTexture option"
  textureShapeRC :: "(int \<times> int) option"

text \<open>
  The errors. The source throws a plain \<open>Error\<close> everywhere and tells the sites apart
  by the message; each site gets the name the specification gives it:
  \<^item> \<open>MissingStorageError\<close>: 'Either `values` or `texture` must be defined';
  \<^item> \<open>IncompleteStorageError\<close>: '`textureShape` must be defined when `texture` is defined';
  \<^item> \<open>ShapeMismatchError\<close>: 'Constructing ndarray of shape (..) should match the length of values (..)';
  \<^item> \<open>InvalidShapeError\<close>: 'new shape and old shape must have the same number of elements.',
    and the failures of \<open>util.inferFromImplicitShape\<close>;
  \<^item> \<open>InvalidRankError\<close>: 'Shape should be of length 2';
  \<^item> \<open>UninitializedBackendError\<close>: 'GPU not intialized.';
  \<^item> \<open>PoolExhaustedError\<close>: raised by the texture manager;
  \<^item> \<open>TypeError\<close>: the JavaScript runtime's error on reading a property of \<open>null\<close>;
  \<^item> \<open>RangeError\<close>: the JavaScript runtime's error on a typed array of negative length.
\<close>

datatype error =
    MissingStorageError
  | IncompleteStorageError
  | ShapeMismatchError
  | InvalidShapeError
  | InvalidRankError
  | UninitializedBackendError
  | PoolExhaustedError
  | TypeError
  | RangeError

subsection \<open>JavaScript numbers\<close>

text \<open>
  The strides and the offsets are computed with the \<open>*\<close> and \<open>+\<close> of JavaScript, on
  IEEE 754 doubles. The dimensions and the indices are integers, and a product or a sum
  of integer doubles is an integer double, an infinity or \<open>NaN\<close>: these are the values
  of \<open>number\<close>. The two zeros are one value: \<open>-0 === 0\<close>, and both index the same
  element.
\<close>

datatype number = Num int | Infinity | NegInfinity | NaN

text \<open>
  A double has a significand of 53 bits. \<open>exponentOf a\<close> is the number of low bits that
  a non-negative integer \<open>a\<close> loses when it is stored in a double.
\<close>

function exponentOf :: "int \<Rightarrow> nat" where
  "exponentOf a = (if a < 2 ^ 53 then 0 else Suc (exponentOf (a div 2)))"
  by pat_completeness auto
termination
  by (relation "measure nat") auto

declare exponentOf.simps [simp del]

text \<open>
  The double nearest to an integer, ties to the even significand; from \<open>2 ^ 1024\<close> on
  the result is an infinity.
\<close>

definition roundDouble :: "int \<Rightarrow> number" where
  "roundDouble x =
     (let a = \<bar>x\<bar>;
          e = exponentOf a;
          q = a div 2 ^ e;
          r = a mod 2 ^ e;
          q1 = (if 2 ^ e < 2 * r \<or> (2 * r = 2 ^ e \<and> odd q) then q + 1 else q);
          m = q1 * 2 ^ e
      in if 2 ^ 1024 \<le> m then (if x < 0 then NegInfinity else Infinity)
         else Num (if x < 0 then - m else m))"

definition signOf :: "number \<Rightarrow> int" where
  "signOf x =
     (case x of
        Num a \<Rightarrow> sgn a
      | Infinity \<Rightarrow> 1
      | NegInfinity \<Rightarrow> - 1
      | NaN \<Rightarrow> 0)"

text \<open>
  \<open>x * y\<close>: the rounded exact product of two finite numbers; with an infinity, the
  infinity of the product's sign, and \<open>NaN\<close> for infinity times zero.
\<close>

definition jsMul :: "number \<Rightarrow> number \<Rightarrow> number" where
  "jsMul x y =
     (if x = NaN \<or> y = NaN then NaN
      else
        (case (x, y) of
           (Num a, Num b) \<Rightarrow> roundDouble (a * b)
         | _ \<Rightarrow>
             if signOf x * signOf y = 0 then NaN
             else if 0 < signOf x * signOf y then Infinity
             else NegInfinity))"

text \<open>
  \<open>x + y\<close>: the rounded exact sum of two finite numbers; an infinity absorbs a finite
  number, and the two infinities add up to \<open>NaN\<close>.
\<close>

definition jsAdd :: "number \<Rightarrow> number \<Rightarrow> number" where
  "jsAdd x y =
     (if x = NaN \<or> y = NaN then NaN
      else
        (case (x, y) of
           (Num a, Num b) \<Rightarrow> roundDouble (a + b)
         | (Num a, _) \<Rightarrow> y
         | (_, Num b) \<Rightarrow> x
         | _ \<Rightarrow> if x = y then x else NaN))"

text \<open>The class of an instance: \<open>NDArray\<close> itself or one of its three subclasses.\<close>

datatype cls = Scalar | Array1D | Array2D | NDArray

type_synonym dref = nat
type_synonym tref = nat

text \<open>
  An instance of \<open>NDArray\<close>. \<open>data\<close> is a reference to an \<open>NDArrayData\<close> object of the
  store, which several instances may share. \<open>stride0\<close> is the private field of
  \<open>Array2D\<close>, \<open>None\<close> in the other classes.
\<close>

record NDArrayObj =
  cls_of :: cls
  shape :: "int list option"
  tsize :: int
  strides :: "number list"
  data :: dref
  dtype :: "DataTypeKey option"
  stride0 :: "number option"

subsection \<open>The collaborators\<close>

text \<open>
  Modelled from the spec: \<open>GPGPUContext\<close> (\<open>./webgl/gpgpu_context\<close>) is not among the
  sources. Following section 6, a context holds the contents of every texture:
  \<open>uploadMatrixToTexture\<close> stores a host buffer under the handle and
  \<open>downloadMatrixFromTexture\<close> returns what is stored there. The layout negotiation
  \<open>webgl_util.getTextureShapeFromLogicalShape\<close>, which depends on the limits of the
  context's \<open>gl\<close>, is a field of the context: the model takes it as a parameter.
\<close>

record 'a GPGPUContext =
  texmem :: "WebGLTexture \<Rightarrow> 'a TypedArray"
  getTextureShapeFromLogicalShape ::
    "int list option \<Rightarrow> (int \<times> int) option \<Rightarrow> int \<times> int"

text \<open>
  Modelled from the spec: \<open>TextureManager\<close> (\<open>./webgl/texture_manager\<close>) is not among
  the sources. Following section 6, \<open>acquireTexture\<close> hands out a handle or fails with
  \<open>PoolExhaustedError\<close> when no storage can be provided, and \<open>releaseTexture\<close> takes
  a handle back. The manager here hands out a fresh handle each time, can provide
  \<open>available\<close> more textures, and logs each release.
\<close>

record TextureManager =
  nextTexture :: WebGLTexture
  available :: nat
  released :: "(WebGLTexture option \<times> (int \<times> int) option) list"

text \<open>
  Modelled from the spec: \<open>TextureManager.acquireTexture\<close> and
  \<open>TextureManager.releaseTexture\<close> are not among the sources; section 6, as above.
\<close>

definition acquireTexture ::
  "TextureManager \<Rightarrow> int \<times> int \<Rightarrow> error + (WebGLTexture \<times> TextureManager)" where
  "acquireTexture m rc =
     (if available m = 0 then Inl PoolExhaustedError
      else Inr (nextTexture m,
                m\<lparr>nextTexture := Suc (nextTexture m), available := available m - 1\<rparr>))"

definition releaseTexture ::
  "TextureManager \<Rightarrow> WebGLTexture option \<Rightarrow> (int \<times> int) option \<Rightarrow> TextureManager" where
  "releaseTexture m t rc =
     m\<lparr>released := (t, rc) # released m, available := Suc (available m)\<rparr>"

text \<open>
  Modelled from the spec: \<open>GPGPUContext.uploadMatrixToTexture\<close> and
  \<open>GPGPUContext.downloadMatrixFromTexture\<close> are not among the sources. Section 6: a
  synchronous copy-in and a synchronous copy-out; the copy-out returns what the copy-in
  stored. Reading a \<open>null\<close> buffer or a \<open>null\<close> handle is not described there; the
  model lets the collaborator throw.
\<close>

definition uploadMatrixToTexture ::
  "'a GPGPUContext \<Rightarrow> WebGLTexture \<Rightarrow> int \<Rightarrow> int \<Rightarrow> 'a TypedArray option
     \<Rightarrow> error + 'a GPGPUContext" where
  "uploadMatrixToTexture g t rows columns vs =
     (case vs of
        None \<Rightarrow> Inl TypeError
      | Some v \<Rightarrow> Inr (g\<lparr>texmem := (texmem g)(t := v)\<rparr>))"

definition downloadMatrixFromTexture ::
  "'a GPGPUContext \<Rightarrow> WebGLTexture option \<Rightarrow> int \<Rightarrow> int \<Rightarrow> error + 'a TypedArray" where
  "downloadMatrixFromTexture g t rows columns =
     (case t of
        None \<Rightarrow> Inl TypeError
      | Some h \<Rightarrow> Inr (texmem g h))"

subsection \<open>The program state\<close>

text \<open>
  The two module-level globals, the store of \<open>NDArrayData\<close> objects and the store of
  \<open>NDArray\<close> instances, each with the next free address. The last field is a parameter
  of the model, which no operation changes: what \<open>util.arraysEqual\<close> does when one of
  the two arrays is \<open>null\<close>. Neither the sources nor the specification say it.
\<close>

record 'a state =
  GPGPU :: "'a GPGPUContext option"
  TEXTURE_MANAGER :: "TextureManager option"
  store :: "dref \<Rightarrow> 'a NDArrayData"
  nextData :: dref
  objs :: "tref \<Rightarrow> NDArrayObj"
  nextObj :: tref
  arraysEqualOnNull :: "int list option \<Rightarrow> int list option \<Rightarrow> error + bool"

definition initializeGPU ::
  "'a state \<Rightarrow> 'a GPGPUContext option \<Rightarrow> TextureManager option \<Rightarrow> 'a state" where
  "initializeGPU st gpgpu textureManager =
     st\<lparr>GPGPU := gpgpu, TEXTURE_MANAGER := textureManager\<rparr>"

text \<open>\<open>throwIfGPUNotInitialized\<close>, returning the two globals when it does not throw.\<close>

definition throwIfGPUNotInitialized ::
  "'a state \<Rightarrow> error + ('a GPGPUContext \<times> TextureManager)" where
  "throwIfGPUNotInitialized st =
     (case GPGPU st of
        None \<Rightarrow> Inl UninitializedBackendError
      | Some g \<Rightarrow>
          (case TEXTURE_MANAGER st of
             None \<Rightarrow> Inl UninitializedBackendError
           | Some m \<Rightarrow> Inr (g, m)))"

text \<open>An object literal \<open>{values, texture, textureShapeRC}\<close> allocates a new data object.\<close>

definition newData :: "'a state \<Rightarrow> 'a NDArrayData \<Rightarrow> dref \<times> 'a state" where
  "newData st d =
     (nextData st, st\<lparr>store := (store st)(nextData st := d), nextData := Suc (nextData st)\<rparr>)"

section \<open>Shape and strides\<close>

text \<open>
  Modelled from the spec: \<open>util.sizeFromShape\<close> (\<open>../util\<close>) is not among the sources.
  Section 4.1: the product of all dimensions; the shape \<open>[]\<close> yields \<open>1\<close>.
\<close>

definition sizeFromShape :: "int list \<Rightarrow> int" where
  "sizeFromShape shp = prod_list shp"

text \<open>
  Modelled from the spec: \<open>util.arraysEqual\<close> is not among the sources. Element-wise
  equality of two arrays. What it does when an array is \<open>null\<close> is the parameter
  \<open>onNull\<close>, which the callers take from the state.
\<close>

definition arraysEqual ::
  "(int list option \<Rightarrow> int list option \<Rightarrow> error + bool)
     \<Rightarrow> int list option \<Rightarrow> int list option \<Rightarrow> error + bool" where
  "arraysEqual onNull n1 n2 =
     (case n1 of
        None \<Rightarrow> onNull n1 n2
      | Some xs \<Rightarrow> (case n2 of None \<Rightarrow> onNull n1 n2 | Some ys \<Rightarrow> Inr (xs = ys)))"

text \<open>
  Modelled from the spec: \<open>util.inferFromImplicitShape\<close> is not among the sources.
  Section 4.3: it resolves at most one \<open>-1\<close> dimension by inferring it from
  \<open>size / product(other dims)\<close> and fails with \<open>InvalidShapeError\<close> if more than one
  dimension is implicit. A shape holds integers, so it fails as well when no integer
  makes the resulting size equal to \<open>size\<close>.
\<close>

definition inferFromImplicitShape :: "int list \<Rightarrow> int \<Rightarrow> error + int list" where
  "inferFromImplicitShape shp sz =
     (let implicit = filter (\<lambda>d. d = -1) shp;
          shapeProd = prod_list (filter (\<lambda>d. d \<noteq> -1) shp)
      in if length implicit > 1 then Inl InvalidShapeError
         else if implicit = [] then Inr shp
         else if shapeProd = 0 \<or> sz mod shapeProd \<noteq> 0 then Inl InvalidShapeError
         else Inr (map (\<lambda>d. if d = -1 then sz div shapeProd else d) shp))"

text \<open>
  The stride loop of the constructor,
  \<^verbatim>\<open>for (let i = dim - 3; i >= 0; --i) strides[i] = strides[i + 1] * shape[i + 1]\<close>:
  \<open>stridesLoop shp n st\<close> runs it from \<open>i = n - 1\<close> down to \<open>0\<close>, so the
  constructor starts it at \<open>n = dim - 2\<close>.
\<close>

fun stridesLoop :: "int list \<Rightarrow> nat \<Rightarrow> number list \<Rightarrow> number list" where
  "stridesLoop shp 0 st = st"
| "stridesLoop shp (Suc i) st =
     stridesLoop shp i (st[i := jsMul (st ! (i + 1)) (Num (shp ! (i + 1)))])"

text \<open>
  The stride table. \<open>new Array(dim - 1)\<close> has \<open>dim - 1\<close> empty slots, which read as
  \<open>undefined\<close> and are written here as \<open>NaN\<close>; the assignment and the loop overwrite
  every one of them.
\<close>

definition computeStrides :: "int list \<Rightarrow> number list" where
  "computeStrides shp =
     (let dim = length shp
      in if dim < 2 then []
         else stridesLoop shp (dim - 2)
                ((replicate (dim - 1) NaN)[dim - 2 := Num (shp ! (dim - 1))]))"

section \<open>Construction\<close>

text \<open>
  The constructor of \<open>NDArray\<close>, called by \<open>super(..)\<close> from each subclass; \<open>c\<close> is
  the class being instantiated. The three \<open>util.assert\<close> calls are checked in the
  order of the source. A throwing constructor leaves no instance behind.
\<close>

definition NDArray_ctor ::
  "'a state \<Rightarrow> cls \<Rightarrow> int list \<Rightarrow> dref \<Rightarrow> DataTypeKey option \<Rightarrow> (error + tref) \<times> 'a state" where
  "NDArray_ctor st c shp d dt =
     (let dat = store st d
      in if \<not> (hostValues dat \<noteq> None \<or> texture dat \<noteq> None) then (Inl MissingStorageError, st)
         else if \<not> (texture dat = None \<or> textureShapeRC dat \<noteq> None)
           then (Inl IncompleteStorageError, st)
         else
           let sz = sizeFromShape shp
           in if (case hostValues dat of
                    None \<Rightarrow> False
                  | Some v \<Rightarrow> sz \<noteq> int (length (elems v)))
                then (Inl ShapeMismatchError, st)
              else
                let this = \<lparr>cls_of = c, shape = Some shp, tsize = sz,
                            strides = computeStrides shp, data = d, dtype = dt,
                            stride0 = None\<rparr>
                in (Inr (nextObj st),
                    st\<lparr>objs := (objs st)(nextObj st := this), nextObj := Suc (nextObj st)\<rparr>))"

text \<open>\<open>Scalar\<close>: a texture gets the layout \<open>[1, 1]\<close>, written into the data object.\<close>

definition Scalar_ctor ::
  "'a state \<Rightarrow> dref \<Rightarrow> DataTypeKey option \<Rightarrow> (error + tref) \<times> 'a state" where
  "Scalar_ctor st d dt =
     (let st1 = (if texture (store st d) \<noteq> None
                 then st\<lparr>store := (store st)(d := (store st d)\<lparr>textureShapeRC := Some (1, 1)\<rparr>)\<rparr>
                 else st)
      in NDArray_ctor st1 Scalar [] d dt)"

text \<open>
  \<open>Array1D\<close>: the shape comes from the buffer's length or, without a buffer, from
  \<open>util.sizeFromShape(data.textureShapeRC)\<close>, which reads a property of \<open>null\<close> when
  there is no layout either.
\<close>

definition Array1D_ctor ::
  "'a state \<Rightarrow> dref \<Rightarrow> DataTypeKey option \<Rightarrow> (error + tref) \<times> 'a state" where
  "Array1D_ctor st d dt =
     (case hostValues (store st d) of
        Some v \<Rightarrow> NDArray_ctor st Array1D [int (length (elems v))] d dt
      | None \<Rightarrow>
          (case textureShapeRC (store st d) of
             None \<Rightarrow> (Inl TypeError, st)
           | Some (r, c) \<Rightarrow> NDArray_ctor st Array1D [sizeFromShape [r, c]] d dt))"

text \<open>\<open>Array2D\<close>: asserts the rank, then caches \<open>strides[0]\<close>.\<close>

definition Array2D_ctor ::
  "'a state \<Rightarrow> int list \<Rightarrow> dref \<Rightarrow> DataTypeKey option \<Rightarrow> (error + tref) \<times> 'a state" where
  "Array2D_ctor st shp d dt =
     (if length shp \<noteq> 2 then (Inl InvalidRankError, st)
      else
        (case NDArray_ctor st Array2D shp d dt of
           (Inl e, st1) \<Rightarrow> (Inl e, st1)
         | (Inr this, st1) \<Rightarrow>
             (Inr this,
              st1\<lparr>objs := (objs st1)
                     (this := (objs st1 this)\<lparr>stride0 := Some (strides (objs st1 this) ! 0)\<rparr>)\<rparr>)))"

text \<open>\<open>NDArray.make\<close>: the dispatch on the rank.\<close>

definition make ::
  "'a state \<Rightarrow> int list \<Rightarrow> dref \<Rightarrow> DataTypeKey option \<Rightarrow> (error + tref) \<times> 'a state" where
  "make st shp d dt =
     (if length shp = 0 then Scalar_ctor st d dt
      else if length shp = 1 then Array1D_ctor st d dt
      else if length shp = 2 then Array2D_ctor st shp d dt
      else NDArray_ctor st NDArray shp d dt)"

text \<open>
  \<open>NDArray.zeros\<close>: \<open>new Float32Array(n)\<close> holds \<open>n\<close> zeros and throws a \<open>RangeError\<close>
  for a negative \<open>n\<close>; the literal \<open>{values}\<close> is a new data object.
\<close>

definition zeros ::
  "('a::zero) state \<Rightarrow> int list \<Rightarrow> DataTypeKey option \<Rightarrow> (error + tref) \<times> 'a state" where
  "zeros st shp dt =
     (if sizeFromShape shp < 0 then (Inl RangeError, st)
      else
        let vs = \<lparr>kind = Float32Array, elems = replicate (nat (sizeFromShape shp)) 0\<rparr>;
            (d, st1) = newData st \<lparr>hostValues = Some vs, texture = None, textureShapeRC = None\<rparr>
        in make st1 shp d dt)"

section \<open>Migration between host and accelerator\<close>

text \<open>\<open>disposeTexture\<close>: hands the texture back and clears both texture fields.\<close>

definition disposeTexture :: "'a state \<Rightarrow> tref \<Rightarrow> (error + unit) \<times> 'a state" where
  "disposeTexture st this =
     (case throwIfGPUNotInitialized st of
        Inl e \<Rightarrow> (Inl e, st)
      | Inr (g, m) \<Rightarrow>
          let d = data (objs st this);
              dat = store st d;
              m1 = releaseTexture m (texture dat) (textureShapeRC dat)
          in (Inr (),
              st\<lparr>TEXTURE_MANAGER := Some m1,
                 store := (store st)(d := dat\<lparr>texture := None, textureShapeRC := None\<rparr>)\<rparr>))"

text \<open>
  \<open>getValues\<close>: the download. The arguments of \<open>downloadMatrixFromTexture\<close> read
  \<open>textureShapeRC[0]\<close>, which throws a \<open>TypeError\<close> when the layout is \<open>null\<close>.
\<close>

definition getValues :: "'a state \<Rightarrow> tref \<Rightarrow> (error + 'a TypedArray) \<times> 'a state" where
  "getValues st this =
     (let d = data (objs st this);
          dat = store st d
      in case hostValues dat of
           Some v \<Rightarrow> (Inr v, st)
         | None \<Rightarrow>
             (case throwIfGPUNotInitialized st of
                Inl e \<Rightarrow> (Inl e, st)
              | Inr (g, m) \<Rightarrow>
                  (case textureShapeRC dat of
                     None \<Rightarrow> (Inl TypeError, st)
                   | Some (r, c) \<Rightarrow>
                       (case downloadMatrixFromTexture g (texture dat) r c of
                          Inl e \<Rightarrow> (Inl e, st)
                        | Inr v \<Rightarrow>
                            (case disposeTexture
                                    (st\<lparr>store := (store st)(d := dat\<lparr>hostValues := Some v\<rparr>)\<rparr>)
                                    this of
                               (Inl e, st2) \<Rightarrow> (Inl e, st2)
                             | (Inr u, st2) \<Rightarrow> (Inr v, st2))))))"

text \<open>
  \<open>uploadToGPU\<close>: negotiates the layout, acquires a texture, copies the host buffer in
  and clears the host reference. Each assignment made before a throw stays.
\<close>

definition uploadToGPU ::
  "'a state \<Rightarrow> tref \<Rightarrow> (int \<times> int) option \<Rightarrow> (error + unit) \<times> 'a state" where
  "uploadToGPU st this preferredTexShape =
     (case throwIfGPUNotInitialized st of
        Inl e \<Rightarrow> (Inl e, st)
      | Inr (g, m) \<Rightarrow>
          (let d = data (objs st this);
               rc = getTextureShapeFromLogicalShape g (shape (objs st this)) preferredTexShape;
               st1 = st\<lparr>store := (store st)(d := (store st d)\<lparr>textureShapeRC := Some rc\<rparr>)\<rparr>
           in (case acquireTexture m rc of
                 Inl e \<Rightarrow> (Inl e, st1)
               | Inr (t, m1) \<Rightarrow>
                   (let st2 = st1\<lparr>TEXTURE_MANAGER := Some m1,
                                  store := (store st1)
                                    (d := (store st1 d)\<lparr>texture := Some t\<rparr>)\<rparr>
                    in (case uploadMatrixToTexture g t (fst rc) (snd rc)
                               (hostValues (store st2 d)) of
                          Inl e \<Rightarrow> (Inl e, st2)
                        | Inr g1 \<Rightarrow>
                            (Inr (),
                             st2\<lparr>GPGPU := Some g1,
                                 store := (store st2)
                                   (d := (store st2 d)\<lparr>hostValues := None\<rparr>)\<rparr>))))))"

definition getTexture ::
  "'a state \<Rightarrow> tref \<Rightarrow> (int \<times> int) option \<Rightarrow> (error + WebGLTexture option) \<times> 'a state" where
  "getTexture st this preferredShapeRC =
     (if texture (store st (data (objs st this))) = None
      then (case uploadToGPU st this preferredShapeRC of
              (Inl e, st1) \<Rightarrow> (Inl e, st1)
            | (Inr u, st1) \<Rightarrow> (Inr (texture (store st1 (data (objs st1 this)))), st1))
      else (Inr (texture (store st (data (objs st this)))), st))"

definition inGPU :: "'a state \<Rightarrow> tref \<Rightarrow> bool" where
  "inGPU st this = (texture (store st (data (objs st this))) \<noteq> None)"

text \<open>\<open>dispose\<close>: clears the host reference and the shape, then releases a texture.\<close>

definition dispose :: "'a state \<Rightarrow> tref \<Rightarrow> (error + unit) \<times> 'a state" where
  "dispose st this =
     (let d = data (objs st this);
          st1 = st\<lparr>store := (store st)(d := (store st d)\<lparr>hostValues := None\<rparr>)\<rparr>;
          st2 = st1\<lparr>objs := (objs st1)(this := (objs st1 this)\<lparr>shape := None\<rparr>)\<rparr>
      in if texture (store st2 d) \<noteq> None then disposeTexture st2 this
         else (Inr (), st2))"

section \<open>Reshape\<close>

text \<open>
  \<open>reshape\<close>: the no-op returns \<open>this\<close>; otherwise \<open>NDArray.make(newShape, this.data)\<close>
  builds a new instance on the same data object, without a \<open>dtype\<close>.
\<close>

definition reshape :: "'a state \<Rightarrow> tref \<Rightarrow> int list \<Rightarrow> (error + tref) \<times> 'a state" where
  "reshape st this newShape =
     (case inferFromImplicitShape newShape (tsize (objs st this)) of
        Inl e \<Rightarrow> (Inl e, st)
      | Inr ns \<Rightarrow>
          (case arraysEqual (arraysEqualOnNull st) (shape (objs st this)) (Some ns) of
             Inl e \<Rightarrow> (Inl e, st)
           | Inr eq \<Rightarrow>
               if eq then (Inr this, st)
               else if tsize (objs st this) \<noteq> sizeFromShape ns then (Inl InvalidShapeError, st)
               else make st ns (data (objs st this)) None))"

section \<open>Reading and writing elements\<close>

text \<open>
  Indexing a typed array out of range, at an infinity or at \<open>NaN\<close> (which stands for
  the index \<open>undefined\<close> as well) reads \<open>undefined\<close>, written \<open>None\<close>, and a write
  there is ignored.
\<close>

definition readAt :: "'a list \<Rightarrow> number \<Rightarrow> 'a option" where
  "readAt xs idx =
     (case idx of
        Num i \<Rightarrow> if 0 \<le> i \<and> i < int (length xs) then Some (xs ! nat i) else None
      | _ \<Rightarrow> None)"

definition writeAt :: "'a list \<Rightarrow> number \<Rightarrow> 'a \<Rightarrow> 'a list" where
  "writeAt xs idx x =
     (case idx of
        Num i \<Rightarrow> if 0 \<le> i \<and> i < int (length xs) then xs[nat i := x] else xs
      | _ \<Rightarrow> xs)"

text \<open>
  The offset loop of \<open>NDArray.get\<close>, \<open>set\<close> and \<open>locToIndex\<close>: \<open>locs[locs.length - 1]\<close>
  plus \<open>strides[i] * locs[i]\<close> for \<open>i < locs.length - 1\<close>. A missing entry is
  \<open>undefined\<close> and makes the sum \<open>NaN\<close>.
\<close>

fun indexLoop :: "number list \<Rightarrow> int list \<Rightarrow> nat \<Rightarrow> nat \<Rightarrow> number \<Rightarrow> number" where
  "indexLoop sts locs i 0 idx = idx"
| "indexLoop sts locs i (Suc n) idx =
     indexLoop sts locs (Suc i) n
       (jsAdd idx (jsMul (if i < length sts then sts ! i else NaN) (Num (locs ! i))))"

definition locToIndex :: "'a state \<Rightarrow> tref \<Rightarrow> int list \<Rightarrow> number" where
  "locToIndex st this locs =
     (if locs = [] then NaN
      else indexLoop (strides (objs st this)) locs 0 (length locs - 1) (Num (last locs)))"

definition NDArray_get :: "'a state \<Rightarrow> tref \<Rightarrow> int list \<Rightarrow> (error + 'a option) \<times> 'a state" where
  "NDArray_get st this locs =
     (let idx = locToIndex st this locs
      in case getValues st this of
           (Inl e, st1) \<Rightarrow> (Inl e, st1)
         | (Inr v, st1) \<Rightarrow> (Inr (readAt (elems v) idx), st1))"

definition Scalar_get :: "'a state \<Rightarrow> tref \<Rightarrow> (error + 'a option) \<times> 'a state" where
  "Scalar_get st this =
     (case getValues st this of
        (Inl e, st1) \<Rightarrow> (Inl e, st1)
      | (Inr v, st1) \<Rightarrow> (Inr (readAt (elems v) (Num 0)), st1))"

definition Array1D_get :: "'a state \<Rightarrow> tref \<Rightarrow> int \<Rightarrow> (error + 'a option) \<times> 'a state" where
  "Array1D_get st this i =
     (case getValues st this of
        (Inl e, st1) \<Rightarrow> (Inl e, st1)
      | (Inr v, st1) \<Rightarrow> (Inr (readAt (elems v) (Num i)), st1))"

text \<open>\<open>Array2D\<close>: the offset is \<open>stride0 * i + j\<close>.\<close>

definition offset2D :: "'a state \<Rightarrow> tref \<Rightarrow> int \<Rightarrow> int \<Rightarrow> number" where
  "offset2D st this i j =
     (case stride0 (objs st this) of
        None \<Rightarrow> NaN
      | Some s0 \<Rightarrow> jsAdd (jsMul s0 (Num i)) (Num j))"

definition Array2D_get ::
  "'a state \<Rightarrow> tref \<Rightarrow> int \<Rightarrow> int \<Rightarrow> (error + 'a option) \<times> 'a state" where
  "Array2D_get st this i j =
     (case getValues st this of
        (Inl e, st1) \<Rightarrow> (Inl e, st1)
      | (Inr v, st1) \<Rightarrow> (Inr (readAt (elems v) (offset2D st this i j)), st1))"

text \<open>
  \<open>Array2D.set\<close> writes into the buffer that \<open>getValues\<close> returns, which is the one the
  data object holds.
\<close>

definition Array2D_set ::
  "'a state \<Rightarrow> tref \<Rightarrow> 'a \<Rightarrow> int \<Rightarrow> int \<Rightarrow> (error + unit) \<times> 'a state" where
  "Array2D_set st this x i j =
     (case getValues st this of
        (Inl e, st1) \<Rightarrow> (Inl e, st1)
      | (Inr v, st1) \<Rightarrow>
          let d = data (objs st1 this);
              v1 = v\<lparr>elems := writeAt (elems v) (offset2D st this i j) x\<rparr>
          in (Inr (),
              st1\<lparr>store := (store st1)(d := (store st1 d)\<lparr>hostValues := Some v1\<rparr>)\<rparr>))"

text \<open>
  \<open>equals\<close>: the three conjuncts of \<open>&&\<close> are evaluated from the left and the first
  false one ends the evaluation.
\<close>

definition equals :: "'a state \<Rightarrow> tref \<Rightarrow> tref \<Rightarrow> (error + bool) \<times> 'a state" where
  "equals st this t =
     (if dtype (objs st this) \<noteq> dtype (objs st t) then (Inr False, st)
      else
        (case arraysEqual (arraysEqualOnNull st) (shape (objs st this)) (shape (objs st t)) of
           Inl e \<Rightarrow> (Inl e, st)
         | Inr eq \<Rightarrow>
             if \<not> eq then (Inr False, st)
             else
               (case getValues st this of
                  (Inl e, st1) \<Rightarrow> (Inl e, st1)
                | (Inr v, st1) \<Rightarrow>
                    (case getValues st1 t of
                       (Inl e, st2) \<Rightarrow> (Inl e, st2)
                     | (Inr w, st2) \<Rightarrow> (Inr (elems v = elems w), st2)))))"

section \<open>The other factories\<close>

text \<open>
  \<open>NDArray.like\<close>: \<open>new Float32Array(values)\<close> copies the elements of the other
  instance's buffer into a new \<open>Float32Array\<close>.
\<close>

definition like :: "'a state \<Rightarrow> tref \<Rightarrow> (error + tref) \<times> 'a state" where
  "like st another =
     (case getValues st another of
        (Inl e, st1) \<Rightarrow> (Inl e, st1)
      | (Inr v, st1) \<Rightarrow>
          (case shape (objs st1 another) of
             None \<Rightarrow> (Inl TypeError, st1)
           | Some shp \<Rightarrow>
               let (d, st2) = newData st1
                     \<lparr>hostValues = Some \<lparr>kind = Float32Array, elems = elems v\<rparr>,
                      texture = None, textureShapeRC = None\<rparr>
               in make st2 shp d (dtype (objs st1 another))))"

text \<open>
  \<open>Array2D.new\<close> for a flat \<open>number[]\<close>: \<open>util.inferShape\<close> of a flat array has one
  dimension, so \<open>util.assertShapesMatch\<close> is not reached, and \<open>toTypedArray\<close> copies the
  numbers into a new \<open>Float32Array\<close>.
\<close>

definition Array2D_new ::
  "'a state \<Rightarrow> int list \<Rightarrow> 'a list \<Rightarrow> DataTypeKey option \<Rightarrow> (error + tref) \<times> 'a state" where
  "Array2D_new st shp vs dt =
     (let (d, st1) = newData st
            \<lparr>hostValues = Some \<lparr>kind = Float32Array, elems = vs\<rparr>,
             texture = None, textureShapeRC = None\<rparr>
      in Array2D_ctor st1 shp d dt)"

section \<open>Predicates on the storage\<close>



text \<open>
  The error of a read whose data object has neither host values nor a layout: the one
  of \<open>throwIfGPUNotInitialized\<close>, or else the one of reading \<open>textureShapeRC[0]\<close>.
\<close>

definition readError :: "'a state \<Rightarrow> error" where
  "readError st =
     (if GPGPU st = None \<or> TEXTURE_MANAGER st = None then UninitializedBackendError
      else TypeError)"

text \<open>
  What the constructor's three assertions establish for a data object and a size: a
  storage form is present, a texture has its layout, a host buffer has the size's length.
\<close>

definition storageOK :: "'a NDArrayData \<Rightarrow> int \<Rightarrow> bool" where
  "storageOK dat sz =
     ((hostValues dat \<noteq> None \<or> texture dat \<noteq> None) \<and>
      (texture dat = None \<or> textureShapeRC dat \<noteq> None) \<and>
      (case hostValues dat of None \<Rightarrow> True | Some v \<Rightarrow> sz = int (length (elems v))))"

section \<open>Example states\<close>

text \<open>
  The state of a program that has created nothing and has not initialised the GPU; its
  \<open>util.arraysEqual\<close> throws on \<open>null\<close>.
\<close>

definition emptyState :: "int state" where
  "emptyState =
     \<lparr>GPGPU = None, TEXTURE_MANAGER = None,
      store = (\<lambda>a. \<lparr>hostValues = None, texture = None, textureShapeRC = None\<rparr>),
      nextData = 0,
      objs = (\<lambda>a. \<lparr>cls_of = NDArray, shape = None, tsize = 0, strides = [], data = 0,
                     dtype = None, stride0 = None\<rparr>),
      nextObj = 0,
      arraysEqualOnNull = (\<lambda>n1 n2. Inl TypeError)\<rparr>"

text \<open>
  A context whose layout is the preferred one or else one row, and a manager that can
  provide four textures.
\<close>

definition exampleContext :: "int GPGPUContext" where
  "exampleContext =
     \<lparr>texmem = (\<lambda>h. \<lparr>kind = Float32Array, elems = []\<rparr>),
      getTextureShapeFromLogicalShape =
        (\<lambda>shp pref. case pref of
                       Some p \<Rightarrow> p
                     | None \<Rightarrow> (1, case shp of None \<Rightarrow> 0 | Some s \<Rightarrow> sizeFromShape s))\<rparr>"

definition exampleManager :: TextureManager where
  "exampleManager = \<lparr>nextTexture = 0, available = 4, released = []\<rparr>"

definition gpuState :: "int state" where
  "gpuState = initializeGPU emptyState (Some exampleContext) (Some exampleManager)"

text \<open>One data object holding the 24 values \<open>0, .., 23\<close>, before any instance is built.\<close>

definition data24 :: "int state" where
  "data24 = snd (newData emptyState
     \<lparr>hostValues = Some \<lparr>kind = Float32Array, elems = map int [0..<24]\<rparr>,
      texture = None, textureShapeRC = None\<rparr>)"

text \<open>
  Six data objects, before any instance is built: host values only (0), a texture
  without its layout (1), a texture with its layout (2), host values and a layout but no
  texture (3), both storage forms (4), and host values next to a texture without its
  layout (5).
\<close>

definition storageExamples :: "int state" where
  "storageExamples =
     emptyState\<lparr>store :=
       (\<lambda>a. if a = 0 then
                \<lparr>hostValues = Some \<lparr>kind = Float32Array, elems = [1, 2]\<rparr>,
                 texture = None, textureShapeRC = None\<rparr>
            else if a = 1 then
                \<lparr>hostValues = None, texture = Some 7, textureShapeRC = None\<rparr>
            else if a = 2 then
                \<lparr>hostValues = None, texture = Some 7, textureShapeRC = Some (1, 2)\<rparr>
            else if a = 3 then
                \<lparr>hostValues = Some \<lparr>kind = Float32Array, elems = [1, 2]\<rparr>,
                 texture = None, textureShapeRC = Some (1, 2)\<rparr>
            else if a = 4 then
                \<lparr>hostValues = Some \<lparr>kind = Float32Array, elems = [1, 2]\<rparr>,
                 texture = Some 7, textureShapeRC = Some (1, 2)\<rparr>
            else
                \<lparr>hostValues = Some \<lparr>kind = Float32Array, elems = [1, 2]\<rparr>,
                 texture = Some 7, textureShapeRC = None\<rparr>),
       nextData := 6\<rparr>"

text \<open>The matrix \<open>Array2D.new([2, 3], [1, 2, 3, 4, 5, 6], 'float32')\<close> as instance 0.\<close>

definition matrixState :: "int state" where
  "matrixState = snd (Array2D_new gpuState [2, 3] [1, 2, 3, 4, 5, 6] (Some float32))"

text \<open>The vector \<open>NDArray.zeros([6])\<close> as instance 0.\<close>

definition vectorState :: "int state" where
  "vectorState = snd (zeros gpuState [6] None)"

text \<open>
  Two vectors, \<open>NDArray.zeros([2], 'float32')\<close> as instance 0 and
  \<open>NDArray.zeros([2], 'int32')\<close> as instance 1.
\<close>

definition pairState :: "int state" where
  "pairState = snd (zeros (snd (zeros gpuState [2] (Some float32))) [2] (Some int32))"

text \<open>The matrix of \<open>matrixState\<close> after \<open>getTexture()\<close>: it holds texture 0.\<close>

definition uploadedState :: "int state" where
  "uploadedState = snd (getTexture matrixState 0 None)"


text \<open>
  The vector of \<open>vectorState\<close> after \<open>r = v.reshape([3, 2])\<close>, \<open>v.dispose()\<close> and
  \<open>r.getTexture()\<close>.
\<close>

definition reuploadedState :: "int state" where
  "reuploadedState =
     snd (getTexture (snd (dispose (snd (reshape vectorState 0 [3, 2])) 0)) 1 None)"

section \<open>The stride table\<close>

text \<open>Below \<open>2 ^ 53\<close> in magnitude, the arithmetic of doubles is exact.\<close>

lemma exponentOf_small: "a < 2 ^ 53 \<Longrightarrow> exponentOf a = 0"
  by (simp add: exponentOf.simps)

lemma roundDouble_exact: "\<bar>x\<bar> < 2 ^ 53 \<Longrightarrow> roundDouble x = Num x"
  by (simp add: roundDouble_def exponentOf_small Let_def)

lemma jsMul_exact: "\<bar>a * b\<bar> < 2 ^ 53 \<Longrightarrow> jsMul (Num a) (Num b) = Num (a * b)"
  by (simp add: jsMul_def roundDouble_exact)

lemma jsAdd_exact: "\<bar>a + b\<bar> < 2 ^ 53 \<Longrightarrow> jsAdd (Num a) (Num b) = Num (a + b)"
  by (simp add: jsAdd_def roundDouble_exact)

lemma stridesLoop_length: "length (stridesLoop shp n st) = length st"
  by (induction n arbitrary: st) simp_all

lemma stridesLoop_keep: "n \<le> j \<Longrightarrow> stridesLoop shp n st ! j = st ! j"
  by (induction n arbitrary: st) simp_all

lemma stridesLoop_rec:
  "j < n \<Longrightarrow> n < length st \<Longrightarrow>
   stridesLoop shp n st ! j = jsMul (stridesLoop shp n st ! (j + 1)) (Num (shp ! (j + 1)))"
proof (induction n arbitrary: st)
  case 0
  then show ?case by simp
next
  case (Suc i)
  show ?case
  proof (cases "j < i")
    case True
    with Suc show ?thesis by simp
  next
    case False
    with Suc.prems have ji: "j = i" by simp
    from Suc.prems show ?thesis
      by (simp add: ji stridesLoop_keep)
  qed
qed

lemma computeStrides_small: "length shp < 2 \<Longrightarrow> computeStrides shp = []"
  by (simp add: computeStrides_def)

lemma computeStrides_length:
  "2 \<le> length shp \<Longrightarrow> length (computeStrides shp) = length shp - 1"
  by (simp add: computeStrides_def Let_def stridesLoop_length)

lemma computeStrides_last:
  "2 \<le> length shp \<Longrightarrow>
   computeStrides shp ! (length shp - 2) = Num (shp ! (length shp - 1))"
  by (simp add: computeStrides_def Let_def stridesLoop_keep)

lemma computeStrides_rec:
  "i < length shp - 2 \<Longrightarrow>
   computeStrides shp ! i = jsMul (computeStrides shp ! (i + 1)) (Num (shp ! (i + 1)))"
proof -
  assume a: "i < length shp - 2"
  then have "\<not> length shp < 2" by simp
  with a show ?thesis
    by (simp add: computeStrides_def Let_def stridesLoop_rec)
qed

lemma computeStrides_prod:
  "i < length shp - 1 \<Longrightarrow>
   (\<forall>k. i < k \<and> k < length shp \<longrightarrow> \<bar>prod_list (drop k shp)\<bar> < 2 ^ 53) \<Longrightarrow>
   computeStrides shp ! i = Num (prod_list (drop (i + 1) shp))"
proof (induction k \<equiv> "length shp - 2 - i" arbitrary: i)
  case 0
  then have i: "i = length shp - 2" and l: "2 \<le> length shp" by simp_all
  from l have "drop (length shp - 1) shp = [shp ! (length shp - 1)]"
    using Cons_nth_drop_Suc[of "length shp - 1" shp] by simp
  moreover from l have "Suc (length shp - 2) = length shp - Suc 0" by simp
  ultimately show ?case using l by (simp add: i computeStrides_last)
next
  case (Suc k)
  then have i2: "i < length shp - 2" and k: "k = length shp - 2 - (i + 1)" by simp_all
  have i1: "i + 1 < length shp - 1" using i2 by simp
  have b: "\<forall>k. i + 1 < k \<and> k < length shp \<longrightarrow> \<bar>prod_list (drop k shp)\<bar> < 2 ^ 53"
    using Suc.prems(2) by simp
  have d: "drop (Suc i) shp = shp ! Suc i # drop (Suc (Suc i)) shp"
    using i2 Cons_nth_drop_Suc[of "Suc i" shp] by simp
  have p: "prod_list (drop (i + 1) shp) = prod_list (drop (i + 2) shp) * shp ! (i + 1)"
    by (simp add: d mult.commute)
  have "\<bar>prod_list (drop (i + 1) shp)\<bar> < 2 ^ 53"
    using Suc.prems(2) i2 by simp
  then have e: "\<bar>prod_list (drop (i + 2) shp) * shp ! (i + 1)\<bar> < 2 ^ 53"
    unfolding p .
  show ?case
    using Suc.hyps(1)[OF k i1 b] computeStrides_rec[OF i2] jsMul_exact[OF e] p
    by simp
qed

text \<open>What a constructor that returns has checked and built.\<close>

lemma NDArray_ctor_Inr:
  assumes "NDArray_ctor st c shp d dt = (Inr r, st1)"
  shows "r = nextObj st"
    and "st1 = st\<lparr>objs := (objs st)
                  (nextObj st := \<lparr>cls_of = c, shape = Some shp, tsize = sizeFromShape shp,
                                   strides = computeStrides shp, data = d, dtype = dt,
                                   stride0 = None\<rparr>),
                nextObj := Suc (nextObj st)\<rparr>"
    and "storageOK (store st d) (sizeFromShape shp)"
  using assms
  by (auto simp: NDArray_ctor_def storageOK_def Let_def split: if_splits option.splits)

lemma NDArray_ctor_ok:
  assumes "storageOK (store st d) (sizeFromShape shp)"
  shows "NDArray_ctor st c shp d dt =
           (Inr (nextObj st),
            st\<lparr>objs := (objs st)
                  (nextObj st := \<lparr>cls_of = c, shape = Some shp, tsize = sizeFromShape shp,
                                   strides = computeStrides shp, data = d, dtype = dt,
                                   stride0 = None\<rparr>),
                nextObj := Suc (nextObj st)\<rparr>)"
  using assms
  by (auto simp: NDArray_ctor_def storageOK_def Let_def split: option.splits)

text \<open>
  C8, as amended. The stride table that the constructor stores is empty for a rank below
  2; for a rank of at least 2 it has \<open>rank - 1\<close> entries, its last entry is the last
  dimension, and each earlier entry is the next entry times the dimension at the next
  position, as the multiplication of doubles computes it; entry \<open>i\<close> is the product of
  the dimensions after position \<open>i\<close> whenever the products of the dimensions from each
  later position on are below \<open>2 ^ 53\<close> in magnitude.
\<close>

theorem strides_at_construction:
  assumes "NDArray_ctor st c shp d dt = (Inr r, st1)"
  shows "(length shp < 2 \<longrightarrow> strides (objs st1 r) = []) \<and>
         (2 \<le> length shp \<longrightarrow>
            length (strides (objs st1 r)) = length shp - 1 \<and>
            strides (objs st1 r) ! (length shp - 2) = Num (shp ! (length shp - 1)) \<and>
            (\<forall>i < length shp - 2.
               strides (objs st1 r) ! i
                 = jsMul (strides (objs st1 r) ! (i + 1)) (Num (shp ! (i + 1))))) \<and>
         (\<forall>i < length shp - 1.
            (\<forall>k. i < k \<and> k < length shp \<longrightarrow> \<bar>prod_list (drop k shp)\<bar> < 2 ^ 53) \<longrightarrow>
            strides (objs st1 r) ! i = Num (prod_list (drop (i + 1) shp)))"
proof -
  have s: "strides (objs st1 r) = computeStrides shp"
    using NDArray_ctor_Inr(1,2)[OF assms] by simp
  show ?thesis
    unfolding s
    using computeStrides_small computeStrides_length computeStrides_last
      computeStrides_rec computeStrides_prod
    by blast
qed

text \<open>The square of 94906267 is odd and above \<open>2 ^ 53\<close>: it loses its last bit.\<close>

lemma exponentOf_example: "exponentOf 9007199515875289 = 1"
  by (simp add: exponentOf.simps[of 9007199515875289] exponentOf_small)

lemma roundDouble_example: "roundDouble 9007199515875289 = Num 9007199515875288"
  by (simp add: roundDouble_def exponentOf_example Let_def)

lemma jsMul_example: "jsMul (Num 94906267) (Num 94906267) = Num 9007199515875288"
  by (simp add: jsMul_def roundDouble_example)

text \<open>
  C8, the claim as stated fails. For the shape \<open>[2, 94906267, 94906267]\<close> on a texture
  with its layout, the constructor returns and stores \<open>94906267 * 94906267\<close> as the
  double \<open>9007199515875288\<close>, which is not the product \<open>9007199515875289\<close> of the
  dimensions after position 0.
\<close>

theorem strides_at_construction_counterexample:
  "fst (make storageExamples [2, 94906267, 94906267] 2 None) = Inr 0 \<and>
   strides (objs (snd (make storageExamples [2, 94906267, 94906267] 2 None)) 0)
     = [Num 9007199515875288, Num 94906267] \<and>
   prod_list (drop 1 [2, 94906267, 94906267]) = (9007199515875289 :: int)"
  by (simp add: storageExamples_def emptyState_def make_def NDArray_ctor_def sizeFromShape_def
      computeStrides_def Let_def numeral_3_eq_3 jsMul_example)

text \<open>
  C8, witness: the shape \<open>[2, 3, 4]\<close> on the 24 values of the examples has the strides
  12 and 4.
\<close>

theorem strides_at_construction_witness:
  "NDArray_ctor data24 NDArray [2, 3, 4] 0 None
     = (Inr 0, snd (NDArray_ctor data24 NDArray [2, 3, 4] 0 None)) \<and>
   length (strides (objs (snd (NDArray_ctor data24 NDArray [2, 3, 4] 0 None)) 0)) = 2 \<and>
   strides (objs (snd (NDArray_ctor data24 NDArray [2, 3, 4] 0 None)) 0) ! 0 = Num 12 \<and>
   strides (objs (snd (NDArray_ctor data24 NDArray [2, 3, 4] 0 None)) 0) ! 1 = Num 4"
proof -
  have ok: "storageOK (store data24 0) (sizeFromShape [2, 3, 4])"
    by (simp add: data24_def newData_def emptyState_def storageOK_def sizeFromShape_def)
  have n: "nextObj data24 = 0"
    by (simp add: data24_def newData_def emptyState_def)
  have h: "NDArray_ctor data24 NDArray [2, 3, 4] 0 None
             = (Inr 0, snd (NDArray_ctor data24 NDArray [2, 3, 4] 0 None))"
    by (simp add: NDArray_ctor_ok[OF ok] n)
  have b: "\<forall>k. 0 < k \<and> k < length [2, 3, 4 :: int]
             \<longrightarrow> \<bar>prod_list (drop k [2, 3, 4 :: int])\<bar> < 2 ^ 53"
  proof (intro allI impI)
    fix k :: nat assume "0 < k \<and> k < length [2, 3, 4 :: int]"
    then have "k = 1 \<or> k = 2" by auto
    then show "\<bar>prod_list (drop k [2, 3, 4 :: int])\<bar> < 2 ^ 53" by auto
  qed
  have s0: "strides (objs (snd (NDArray_ctor data24 NDArray [2, 3, 4] 0 None)) 0) ! 0 = Num 12"
    using strides_at_construction[OF h] b by (simp add: jsMul_exact)
  have s1: "strides (objs (snd (NDArray_ctor data24 NDArray [2, 3, 4] 0 None)) 0) ! 1 = Num 4"
    using strides_at_construction[OF h] by simp
  have l: "length (strides (objs (snd (NDArray_ctor data24 NDArray [2, 3, 4] 0 None)) 0)) = 2"
    using strides_at_construction[OF h] by simp
  show ?thesis
    by (intro conjI) (rule h l s0 s1)+
qed

section \<open>The example states, evaluated\<close>

lemmas example_defs =
  emptyState_def gpuState_def initializeGPU_def exampleContext_def exampleManager_def
  newData_def make_def Scalar_ctor_def Array1D_ctor_def Array2D_ctor_def NDArray_ctor_def
  zeros_def Array2D_new_def sizeFromShape_def computeStrides_def Let_def

lemma matrixState_view:
  "objs matrixState 0 = \<lparr>cls_of = Array2D, shape = Some [2, 3], tsize = 6, strides = [Num 3],
     data = 0, dtype = Some float32, stride0 = Some (Num 3)\<rparr>"
  "store matrixState 0 = \<lparr>hostValues = Some \<lparr>kind = Float32Array, elems = [1, 2, 3, 4, 5, 6]\<rparr>,
     texture = None, textureShapeRC = None\<rparr>"
  "GPGPU matrixState = Some exampleContext"
  "TEXTURE_MANAGER matrixState = Some exampleManager"
  "nextObj matrixState = 1"
  by (simp_all add: matrixState_def example_defs)

lemma vectorState_view:
  "objs vectorState 0 = \<lparr>cls_of = Array1D, shape = Some [6], tsize = 6, strides = [],
     data = 0, dtype = None, stride0 = None\<rparr>"
  "store vectorState 0 = \<lparr>hostValues = Some \<lparr>kind = Float32Array, elems = [0, 0, 0, 0, 0, 0]\<rparr>,
     texture = None, textureShapeRC = None\<rparr>"
  "GPGPU vectorState = Some exampleContext"
  "TEXTURE_MANAGER vectorState = Some exampleManager"
  "nextObj vectorState = 1"
  by (simp_all add: vectorState_def example_defs numeral_eq_Suc)

lemma pairState_view:
  "objs pairState 0 = \<lparr>cls_of = Array1D, shape = Some [2], tsize = 2, strides = [],
     data = 0, dtype = Some float32, stride0 = None\<rparr>"
  "objs pairState (Suc 0) = \<lparr>cls_of = Array1D, shape = Some [2], tsize = 2, strides = [],
     data = 1, dtype = Some int32, stride0 = None\<rparr>"
  "store pairState 0 = \<lparr>hostValues = Some \<lparr>kind = Float32Array, elems = [0, 0]\<rparr>,
     texture = None, textureShapeRC = None\<rparr>"
  "store pairState (Suc 0) = \<lparr>hostValues = Some \<lparr>kind = Float32Array, elems = [0, 0]\<rparr>,
     texture = None, textureShapeRC = None\<rparr>"
  "GPGPU pairState = Some exampleContext"
  "TEXTURE_MANAGER pairState = Some exampleManager"
  "nextObj pairState = 2"
  by (simp_all add: pairState_def example_defs numeral_eq_Suc)

section \<open>Construction\<close>

text \<open>
  What \<open>NDArray.make\<close> has built when it returns: a new instance on the given data
  object; no other instance, no buffer, no texture handle and no global has changed.
\<close>

lemma make_Inr:
  assumes "make st shp d dt = (Inr r, st1)"
  shows "r = nextObj st" and "nextObj st1 = Suc (nextObj st)"
    and "data (objs st1 r) = d" and "dtype (objs st1 r) = dt"
    and "t \<noteq> r \<Longrightarrow> objs st1 t = objs st t"
    and "hostValues (store st1 a) = hostValues (store st a)"
    and "texture (store st1 a) = texture (store st a)"
    and "GPGPU st1 = GPGPU st" and "TEXTURE_MANAGER st1 = TEXTURE_MANAGER st"
    and "storageOK (store st1 d) (tsize (objs st1 r))"
    and "\<exists>s. shape (objs st1 r) = Some s \<and> tsize (objs st1 r) = sizeFromShape s"
    and "nextData st1 = nextData st"
proof -
  consider (0) "length shp = 0" | (1) "length shp = 1" | (2) "length shp = 2" | (n) "length shp > 2"
    by linarith
  then have "r = nextObj st \<and> nextObj st1 = Suc (nextObj st) \<and> data (objs st1 r) = d \<and>
     dtype (objs st1 r) = dt \<and> (t \<noteq> r \<longrightarrow> objs st1 t = objs st t) \<and>
     hostValues (store st1 a) = hostValues (store st a) \<and>
     texture (store st1 a) = texture (store st a) \<and>
     GPGPU st1 = GPGPU st \<and> TEXTURE_MANAGER st1 = TEXTURE_MANAGER st \<and>
     storageOK (store st1 d) (tsize (objs st1 r)) \<and>
     (\<exists>s. shape (objs st1 r) = Some s \<and> tsize (objs st1 r) = sizeFromShape s) \<and>
     nextData st1 = nextData st"
  proof cases
    case 0
    let ?st0 = "if texture (store st d) \<noteq> None
                 then st\<lparr>store := (store st)(d := (store st d)\<lparr>textureShapeRC := Some (1, 1)\<rparr>)\<rparr>
                 else st"
    from 0 assms have c: "NDArray_ctor ?st0 Scalar [] d dt = (Inr r, st1)"
      by (simp add: make_def Scalar_ctor_def Let_def)
    from NDArray_ctor_Inr[OF c] show ?thesis
      by (auto simp: storageOK_def)
  next
    case 1
    from 1 assms obtain s where c: "NDArray_ctor st Array1D s d dt = (Inr r, st1)"
      by (auto simp: make_def Array1D_ctor_def split: option.splits)
    from NDArray_ctor_Inr[OF c] show ?thesis by auto
  next
    case 2
    from 2 assms obtain st0 where c: "NDArray_ctor st Array2D shp d dt = (Inr r, st0)"
      and s1: "st1 = st0\<lparr>objs := (objs st0)
                     (r := (objs st0 r)\<lparr>stride0 := Some (strides (objs st0 r) ! 0)\<rparr>)\<rparr>"
      by (auto simp: make_def Array2D_ctor_def split: sum.splits prod.splits)
    from NDArray_ctor_Inr[OF c] show ?thesis by (auto simp: s1)
  next
    case n
    from n have "shp \<noteq> []" "length shp \<noteq> 1" "length shp \<noteq> 2" by auto
    with assms have c: "NDArray_ctor st NDArray shp d dt = (Inr r, st1)"
      by (simp add: make_def)
    from NDArray_ctor_Inr[OF c] show ?thesis by auto
  qed
  then show "r = nextObj st" and "nextObj st1 = Suc (nextObj st)"
    and "data (objs st1 r) = d" and "dtype (objs st1 r) = dt"
    and "t \<noteq> r \<Longrightarrow> objs st1 t = objs st t"
    and "hostValues (store st1 a) = hostValues (store st a)"
    and "texture (store st1 a) = texture (store st a)"
    and "GPGPU st1 = GPGPU st" and "TEXTURE_MANAGER st1 = TEXTURE_MANAGER st"
    and "storageOK (store st1 d) (tsize (objs st1 r))"
    and "\<exists>s. shape (objs st1 r) = Some s \<and> tsize (objs st1 r) = sizeFromShape s"
    and "nextData st1 = nextData st"
    by blast+
qed

lemma storageOK_layout:
  "storageOK dat sz \<Longrightarrow> storageOK (dat\<lparr>textureShapeRC := Some rc\<rparr>) sz"
  by (simp add: storageOK_def)

text \<open>
  \<open>NDArray.make\<close> returns on a data object that passes the three assertions for the
  size of the shape.
\<close>

lemma make_ok:
  assumes ok: "storageOK (store st d) sz" and sz: "sizeFromShape ns = sz"
  shows "\<exists>r st1. make st ns d dt = (Inr r, st1) \<and>
           (length ns \<noteq> 1 \<or> hostValues (store st d) \<noteq> None \<longrightarrow> shape (objs st1 r) = Some ns)"
proof -
  have "length ns = 0 \<or> length ns = 1 \<or> length ns = 2 \<or> length ns > 2" by linarith
  then consider (0) "ns = []" | (1) "length ns = 1" | (2) "length ns = 2" | (n) "length ns > 2"
    by auto
  then show ?thesis
  proof cases
    case 0
    let ?st0 = "if texture (store st d) \<noteq> None
                 then st\<lparr>store := (store st)(d := (store st d)\<lparr>textureShapeRC := Some (1, 1)\<rparr>)\<rparr>
                 else st"
    have "storageOK (store ?st0 d) (sizeFromShape [])"
      using ok sz 0 by (simp add: storageOK_layout)
    from NDArray_ctor_ok[OF this, of Scalar dt] 0 show ?thesis
      by (simp add: make_def Scalar_ctor_def Let_def)
  next
    case 1
    then obtain x where ns: "ns = [x]" by (cases ns) auto
    show ?thesis
    proof (cases "hostValues (store st d)")
      case None
      with ok obtain r c where rc: "textureShapeRC (store st d) = Some (r, c)"
        by (auto simp: storageOK_def)
      from ok None have "storageOK (store st d) (sizeFromShape [sizeFromShape [r, c]])"
        by (simp add: storageOK_def)
      from NDArray_ctor_ok[OF this, of Array1D dt] 1 None rc show ?thesis
        by (simp add: make_def Array1D_ctor_def)
    next
      case (Some v)
      with ok sz ns have x: "x = int (length (elems v))"
        by (simp add: storageOK_def sizeFromShape_def)
      from ok Some have "storageOK (store st d) (sizeFromShape [int (length (elems v))])"
        by (simp add: storageOK_def sizeFromShape_def)
      from NDArray_ctor_ok[OF this, of Array1D dt] 1 Some show ?thesis
        by (simp add: make_def Array1D_ctor_def ns x)
    qed
  next
    case 2
    from ok sz have "storageOK (store st d) (sizeFromShape ns)" by simp
    from NDArray_ctor_ok[OF this, of Array2D dt] 2 show ?thesis
      by (simp add: make_def Array2D_ctor_def)
  next
    case n
    then have l: "ns \<noteq> []" "length ns \<noteq> 1" "length ns \<noteq> 2" by auto
    from ok sz have "storageOK (store st d) (sizeFromShape ns)" by simp
    from NDArray_ctor_ok[OF this, of NDArray dt] l show ?thesis
      by (simp add: make_def)
  qed
qed

text \<open>
  C6, as amended. The constructor fails with \<open>IncompleteStorageError\<close> whenever a
  texture is given without its layout; otherwise it fails with \<open>ShapeMismatchError\<close>
  whenever host values are given whose length differs from the product of the shape's
  dimensions; it returns for host values of the right length without a texture, and for a
  texture with its layout without host values.
\<close>

theorem construction_checks:
  "(texture (store st d) \<noteq> None \<and> textureShapeRC (store st d) = None
      \<longrightarrow> NDArray_ctor st c shp d dt = (Inl IncompleteStorageError, st)) \<and>
   ((texture (store st d) = None \<or> textureShapeRC (store st d) \<noteq> None) \<and>
    hostValues (store st d) = Some v \<and> int (length (elems v)) \<noteq> sizeFromShape shp
      \<longrightarrow> NDArray_ctor st c shp d dt = (Inl ShapeMismatchError, st)) \<and>
   (hostValues (store st d) = Some v \<and> int (length (elems v)) = sizeFromShape shp \<and>
    texture (store st d) = None
      \<longrightarrow> (\<exists>r st1. NDArray_ctor st c shp d dt = (Inr r, st1))) \<and>
   (hostValues (store st d) = None \<and> texture (store st d) \<noteq> None \<and>
    textureShapeRC (store st d) \<noteq> None
      \<longrightarrow> (\<exists>r st1. NDArray_ctor st c shp d dt = (Inr r, st1)))"
  by (auto simp: NDArray_ctor_def Let_def)

text \<open>
  C6, the claim as stated fails. A layout given without a texture is accepted: the
  assertion only asks for a layout when there is a texture. And host values of the wrong
  length next to a texture without its layout fail with \<open>IncompleteStorageError\<close>, not
  with \<open>ShapeMismatchError\<close>: the layout is checked first.
\<close>

theorem construction_checks_counterexample:
  "texture (store storageExamples 3) = None \<and>
   textureShapeRC (store storageExamples 3) = Some (1, 2) \<and>
   fst (NDArray_ctor storageExamples NDArray [2] 3 None) = Inr 0 \<and>
   fst (make storageExamples [1, 2] 3 None) = Inr 0 \<and>
   hostValues (store storageExamples 5) = Some \<lparr>kind = Float32Array, elems = [1, 2]\<rparr> \<and>
   sizeFromShape [1, 3] = 3 \<and>
   fst (NDArray_ctor storageExamples NDArray [1, 3] 5 None) = Inl IncompleteStorageError \<and>
   fst (make storageExamples [1, 3] 5 None) = Inl IncompleteStorageError"
  by (simp add: storageExamples_def example_defs)

text \<open>
  C6, witness: the four cases at the data objects 1, 0, 0 and 2 of the examples.
\<close>

theorem construction_checks_witness:
  "NDArray_ctor storageExamples NDArray [2] 1 None = (Inl IncompleteStorageError, storageExamples) \<and>
   NDArray_ctor storageExamples NDArray [3] 0 None = (Inl ShapeMismatchError, storageExamples) \<and>
   (\<exists>r st1. NDArray_ctor storageExamples NDArray [2] 0 None = (Inr r, st1)) \<and>
   (\<exists>r st1. NDArray_ctor storageExamples NDArray [2] 2 None = (Inr r, st1))"
proof -
  let ?v = "\<lparr>kind = Float32Array, elems = [1, 2::int]\<rparr>"
  have a: "NDArray_ctor storageExamples NDArray [2] 1 None = (Inl IncompleteStorageError, storageExamples)"
    using construction_checks[of storageExamples 1 NDArray "[2]" None ?v]
    by (simp add: storageExamples_def emptyState_def)
  have b: "NDArray_ctor storageExamples NDArray [3] 0 None = (Inl ShapeMismatchError, storageExamples)"
    using construction_checks[of storageExamples 0 NDArray "[3]" None ?v]
    by (simp add: storageExamples_def emptyState_def sizeFromShape_def)
  have c: "\<exists>r st1. NDArray_ctor storageExamples NDArray [2] 0 None = (Inr r, st1)"
    using construction_checks[of storageExamples 0 NDArray "[2]" None ?v]
    by (simp add: storageExamples_def emptyState_def sizeFromShape_def)
  have d: "\<exists>r st1. NDArray_ctor storageExamples NDArray [2] 2 None = (Inr r, st1)"
    using construction_checks[of storageExamples 2 NDArray "[2]" None ?v]
    by (simp add: storageExamples_def emptyState_def)
  from a b c d show ?thesis by blast
qed

section \<open>Upload and download\<close>

lemma getTexture_upload:
  assumes hv: "hostValues (store st (data (objs st t))) = Some v"
      and tx: "texture (store st (data (objs st t))) = None"
      and g: "GPGPU st = Some g" and m: "TEXTURE_MANAGER st = Some m" and av: "0 < available m"
  shows "getTexture st t pref =
     (Inr (Some (nextTexture m)),
      st\<lparr>GPGPU := Some (g\<lparr>texmem := (texmem g)(nextTexture m := v)\<rparr>),
         TEXTURE_MANAGER := Some (m\<lparr>nextTexture := Suc (nextTexture m), available := available m - 1\<rparr>),
         store := (store st)(data (objs st t) :=
            (store st (data (objs st t)))
              \<lparr>textureShapeRC := Some (getTextureShapeFromLogicalShape g (shape (objs st t)) pref),
               texture := Some (nextTexture m), hostValues := None\<rparr>)\<rparr>)"
  using assms
  by (simp add: getTexture_def uploadToGPU_def throwIfGPUNotInitialized_def acquireTexture_def
      uploadMatrixToTexture_def Let_def)

lemma getValues_download:
  assumes hv: "hostValues (store st (data (objs st t))) = None"
      and tx: "texture (store st (data (objs st t))) = Some h"
      and rc: "textureShapeRC (store st (data (objs st t))) = Some rc"
      and g: "GPGPU st = Some g" and m: "TEXTURE_MANAGER st = Some m"
  shows "getValues st t =
     (Inr (texmem g h),
      st\<lparr>TEXTURE_MANAGER := Some (releaseTexture m (Some h) (Some rc)),
         store := (store st)(data (objs st t) :=
            (store st (data (objs st t)))
              \<lparr>hostValues := Some (texmem g h), texture := None, textureShapeRC := None\<rparr>)\<rparr>)"
  using assms
  by (cases rc) (simp add: getValues_def disposeTexture_def throwIfGPUNotInitialized_def
      downloadMatrixFromTexture_def Let_def)

text \<open>
  C1. For a tensor that holds host values \<open>v\<close> and no texture, with the GPU initialised
  and a texture available, \<open>getTexture\<close> returns a handle and clears the host reference,
  and \<open>getValues\<close> after it returns a buffer equal to \<open>v\<close>, element by element,
  stores it as the host values again and releases the handle.
\<close>

theorem upload_download_roundtrip:
  assumes hv: "hostValues (store st (data (objs st t))) = Some v"
      and tx: "texture (store st (data (objs st t))) = None"
      and g: "GPGPU st = Some g" and m: "TEXTURE_MANAGER st = Some m" and av: "0 < available m"
  shows "\<exists>h st1 st2 w.
           getTexture st t pref = (Inr (Some h), st1) \<and>
           hostValues (store st1 (data (objs st1 t))) = None \<and>
           texture (store st1 (data (objs st1 t))) = Some h \<and>
           getValues st1 t = (Inr w, st2) \<and> w = v \<and> elems w = elems v \<and>
           hostValues (store st2 (data (objs st2 t))) = Some v \<and>
           texture (store st2 (data (objs st2 t))) = None \<and>
           (\<exists>m2. TEXTURE_MANAGER st2 = Some m2 \<and> fst (hd (released m2)) = Some h)"
proof -
  let ?h = "nextTexture m"
  obtain st1 where up: "getTexture st t pref = (Inr (Some ?h), st1)"
    and s1: "st1 = st\<lparr>GPGPU := Some (g\<lparr>texmem := (texmem g)(nextTexture m := v)\<rparr>),
         TEXTURE_MANAGER := Some (m\<lparr>nextTexture := Suc (nextTexture m), available := available m - 1\<rparr>),
         store := (store st)(data (objs st t) :=
            (store st (data (objs st t)))
              \<lparr>textureShapeRC := Some (getTextureShapeFromLogicalShape g (shape (objs st t)) pref),
               texture := Some (nextTexture m), hostValues := None\<rparr>)\<rparr>"
    using getTexture_upload[OF assms] by simp
  have a: "hostValues (store st1 (data (objs st1 t))) = None"
    and b: "texture (store st1 (data (objs st1 t))) = Some ?h"
    and c: "textureShapeRC (store st1 (data (objs st1 t))) = Some (getTextureShapeFromLogicalShape g (shape (objs st t)) pref)"
    and d: "GPGPU st1 = Some (g\<lparr>texmem := (texmem g)(nextTexture m := v)\<rparr>)"
    and e: "TEXTURE_MANAGER st1 = Some (m\<lparr>nextTexture := Suc (nextTexture m), available := available m - 1\<rparr>)"
    by (simp_all add: s1)
  note dl = getValues_download[OF a b c d e]
  show ?thesis
    apply (rule exI[of _ ?h], rule exI[of _ st1])
    apply (simp only: dl up a b)
    apply (simp add: releaseTexture_def)
    done
qed

text \<open>
  C1, witness: the matrix of the examples goes to texture 0 and comes back.
\<close>

theorem upload_download_roundtrip_witness:
  "hostValues (store matrixState (data (objs matrixState 0)))
     = Some \<lparr>kind = Float32Array, elems = [1, 2, 3, 4, 5, 6]\<rparr> \<and>
   fst (getTexture matrixState 0 None) = Inr (Some 0) \<and>
   fst (getValues (snd (getTexture matrixState 0 None)) 0)
     = Inr \<lparr>kind = Float32Array, elems = [1, 2, 3, 4, 5, 6]\<rparr>"
proof -
  have hv: "hostValues (store matrixState (data (objs matrixState 0)))
              = Some \<lparr>kind = Float32Array, elems = [1, 2, 3, 4, 5, 6]\<rparr>"
    and tx: "texture (store matrixState (data (objs matrixState 0))) = None"
    and av: "0 < available exampleManager"
    by (simp_all add: matrixState_view exampleManager_def)
  from upload_download_roundtrip[OF hv tx matrixState_view(3) matrixState_view(4) av, of None]
  obtain h st1 st2 w where "getTexture matrixState 0 None = (Inr (Some h), st1)"
    and "texture (store st1 (data (objs st1 0))) = Some h"
    and "getValues st1 0 = (Inr w, st2)"
    and "w = \<lparr>kind = Float32Array, elems = [1, 2, 3, 4, 5, 6]\<rparr>"
    by blast
  moreover have "fst (getTexture matrixState 0 None) = Inr (Some 0)"
    by (simp add: getTexture_upload[OF hv tx matrixState_view(3) matrixState_view(4) av]
        exampleManager_def)
  ultimately show ?thesis using hv by simp
qed










lemma uploadedState_view:
  "objs uploadedState 0 = \<lparr>cls_of = Array2D, shape = Some [2, 3], tsize = 6, strides = [Num 3],
     data = 0, dtype = Some float32, stride0 = Some (Num 3)\<rparr>"
  "store uploadedState 0 = \<lparr>hostValues = None, texture = Some 0, textureShapeRC = Some (1, 6)\<rparr>"
  "GPGPU uploadedState = Some (exampleContext\<lparr>texmem := (texmem exampleContext)
     (0 := \<lparr>kind = Float32Array, elems = [1, 2, 3, 4, 5, 6]\<rparr>)\<rparr>)"
  "TEXTURE_MANAGER uploadedState = Some \<lparr>nextTexture = 1, available = 3, released = []\<rparr>"
  "nextObj uploadedState = 1"
  "arraysEqualOnNull uploadedState = arraysEqualOnNull matrixState"
proof -
  have hv: "hostValues (store matrixState (data (objs matrixState 0)))
              = Some \<lparr>kind = Float32Array, elems = [1, 2, 3, 4, 5, 6]\<rparr>"
    and tx: "texture (store matrixState (data (objs matrixState 0))) = None"
    and av: "0 < available exampleManager"
    by (simp_all add: matrixState_view exampleManager_def)
  note up = getTexture_upload[OF hv tx matrixState_view(3) matrixState_view(4) av, of None]
  show "objs uploadedState 0 = \<lparr>cls_of = Array2D, shape = Some [2, 3], tsize = 6, strides = [Num 3],
     data = 0, dtype = Some float32, stride0 = Some (Num 3)\<rparr>"
    and "store uploadedState 0 = \<lparr>hostValues = None, texture = Some 0, textureShapeRC = Some (1, 6)\<rparr>"
    and "GPGPU uploadedState = Some (exampleContext\<lparr>texmem := (texmem exampleContext)
     (0 := \<lparr>kind = Float32Array, elems = [1, 2, 3, 4, 5, 6]\<rparr>)\<rparr>)"
    and "TEXTURE_MANAGER uploadedState = Some \<lparr>nextTexture = 1, available = 3, released = []\<rparr>"
    and "nextObj uploadedState = 1"
    and "arraysEqualOnNull uploadedState = arraysEqualOnNull matrixState"
    by (simp_all add: uploadedState_def up matrixState_view exampleManager_def
        exampleContext_def sizeFromShape_def)
qed


section \<open>Reshape\<close>


lemma infer_no_implicit:
  "-1 \<notin> set shp \<Longrightarrow> inferFromImplicitShape shp sz = Inr shp"
proof -
  assume a: "-1 \<notin> set shp"
  then have "filter (\<lambda>d. d = -1) shp = []"
    by (auto simp: filter_empty_conv)
  then show ?thesis by (simp add: inferFromImplicitShape_def Let_def)
qed

lemma dispose_Inr:
  assumes "dispose st t = (Inr u, st2)"
  shows "hostValues (store st2 (data (objs st t))) = None"
    and "texture (store st2 (data (objs st t))) = None"
    and "shape (objs st2 t) = None"
    and "data (objs st2 x) = data (objs st x)"
    and "dtype (objs st2 x) = dtype (objs st x)"
    and "x \<noteq> t \<Longrightarrow> objs st2 x = objs st x"
    and "GPGPU st2 = GPGPU st"
    and "(texture (store st (data (objs st t))) = None \<longrightarrow>
             textureShapeRC (store st (data (objs st t))) = None)
           \<Longrightarrow> textureShapeRC (store st2 (data (objs st t))) = None"
    and "arraysEqualOnNull st2 = arraysEqualOnNull st"
    and "(TEXTURE_MANAGER st2 = None) = (TEXTURE_MANAGER st = None)"
  using assms
  by (auto simp: dispose_def disposeTexture_def throwIfGPUNotInitialized_def Let_def
      split: if_splits sum.splits prod.splits option.splits)

lemma dispose_ok:
  assumes "texture (store st (data (objs st t))) = None \<or>
           (GPGPU st \<noteq> None \<and> TEXTURE_MANAGER st \<noteq> None)"
  shows "\<exists>st2. dispose st t = (Inr (), st2)"
  using assms
  by (auto simp: dispose_def disposeTexture_def throwIfGPUNotInitialized_def Let_def)

lemma reshape_new:
  assumes r: "reshape st t newShape = (Inr r, st1)"
      and i: "inferFromImplicitShape newShape (tsize (objs st t)) = Inr ns"
      and sh: "shape (objs st t) = Some s"
      and ne: "ns \<noteq> s"
  shows "make st ns (data (objs st t)) None = (Inr r, st1)"
  using assms
  by (auto simp: reshape_def arraysEqual_def split: if_splits)



text \<open>
  C3, the claim as stated fails. After \<open>r = v.reshape([3, 2])\<close> and \<open>r.dispose()\<close>
  the vector \<open>v\<close> of six elements is not disposed, and \<open>[2, 3]\<close> has its size; but
  the shared data object holds no storage any more, and \<open>v.reshape([2, 3])\<close> fails in
  the constructor, neither returning nor failing with \<open>InvalidShapeError\<close>.
\<close>

lemmas reshape_eval =
  reshape_def inferFromImplicitShape_def arraysEqual_def sizeFromShape_def make_def
  Array2D_ctor_def NDArray_ctor_def computeStrides_def Let_def




text \<open>
  C5. \<open>reshape\<close> with the instance's own shape, which has no implicit dimension
  \<open>-1\<close> (the dimensions of a shape are non-negative), returns the same instance and
  leaves the whole state, and so the storage, as it was.
\<close>

theorem reshape_identity:
  assumes sh: "shape (objs st t) = Some s" and nn: "-1 \<notin> set s"
  shows "reshape st t s = (Inr t, st)"
  using sh infer_no_implicit[OF nn] by (simp add: reshape_def arraysEqual_def)

text \<open>
  C5, witness: the vector of six elements reshaped into \<open>[6]\<close>.
\<close>

theorem reshape_identity_witness:
  "shape (objs vectorState 0) = Some [6] \<and> reshape vectorState 0 [6] = (Inr 0, vectorState)"
proof -
  have sh: "shape (objs vectorState 0) = Some [6]" by (simp add: vectorState_view)
  have nn: "-1 \<notin> set [6::int]" by simp
  from reshape_identity[OF sh nn] sh show ?thesis by simp
qed

text \<open>
  C4. A \<open>reshape\<close> of an instance that is not disposed, into a target that resolves
  to another shape than its own, returns a new instance on the same data object: no data
  object is allocated and the buffer and the texture stay as they were. A completed
  \<open>dispose\<close> of either instance clears the host values and the texture that the other
  one reads, and \<open>dispose\<close> completes for both whenever no texture is held or the GPU
  is initialised. The \<open>reshape\<close> does return when the size of the resolved shape is
  the instance's size and the data object passes the constructor's assertions.
\<close>

theorem reshape_shares_storage:
  assumes sh: "shape (objs st t) = Some s"
      and i: "inferFromImplicitShape newShape (tsize (objs st t)) = Inr ns"
      and ne: "ns \<noteq> s"
      and al: "t < nextObj st"
  shows "(\<forall>r st1. reshape st t newShape = (Inr r, st1) \<longrightarrow>
            r \<noteq> t \<and>
            data (objs st1 r) = data (objs st1 t) \<and>
            data (objs st1 t) = data (objs st t) \<and>
            nextData st1 = nextData st \<and>
            hostValues (store st1 (data (objs st t))) = hostValues (store st (data (objs st t))) \<and>
            texture (store st1 (data (objs st t))) = texture (store st (data (objs st t))) \<and>
            (\<forall>st2. dispose st1 t = (Inr (), st2) \<longrightarrow>
               hostValues (store st2 (data (objs st2 r))) = None \<and>
               texture (store st2 (data (objs st2 r))) = None) \<and>
            (\<forall>st2. dispose st1 r = (Inr (), st2) \<longrightarrow>
               hostValues (store st2 (data (objs st2 t))) = None \<and>
               texture (store st2 (data (objs st2 t))) = None) \<and>
            (texture (store st (data (objs st t))) = None \<or>
             (GPGPU st \<noteq> None \<and> TEXTURE_MANAGER st \<noteq> None) \<longrightarrow>
               (\<exists>st2. dispose st1 t = (Inr (), st2)) \<and>
               (\<exists>st2. dispose st1 r = (Inr (), st2)))) \<and>
         (tsize (objs st t) = sizeFromShape s \<and>
          storageOK (store st (data (objs st t))) (tsize (objs st t)) \<and>
          sizeFromShape ns = tsize (objs st t) \<longrightarrow>
            (\<exists>r st1. reshape st t newShape = (Inr r, st1)))"
proof (intro conjI allI impI)
  fix r st1 assume rs: "reshape st t newShape = (Inr r, st1)"
  note m = reshape_new[OF rs i sh ne]
  show rt: "r \<noteq> t" using make_Inr(1)[OF m] al by simp
  have dr: "data (objs st1 r) = data (objs st t)" using make_Inr(3)[OF m] .
  have ot: "objs st1 t = objs st t" using make_Inr(5)[OF m, of t] rt by simp
  show "data (objs st1 r) = data (objs st1 t)" using dr ot by simp
  show "data (objs st1 t) = data (objs st t)" using ot by simp
  show "nextData st1 = nextData st" using make_Inr(12)[OF m] .
  show "hostValues (store st1 (data (objs st t))) = hostValues (store st (data (objs st t)))"
    using make_Inr(6)[OF m] .
  show tx: "texture (store st1 (data (objs st t))) = texture (store st (data (objs st t)))"
    using make_Inr(7)[OF m] .
  {
    fix st2 assume d: "dispose st1 t = (Inr (), st2)"
    from dispose_Inr(1,2)[OF d] dispose_Inr(4)[OF d, of r] dr ot
    show "hostValues (store st2 (data (objs st2 r))) = None"
      and "texture (store st2 (data (objs st2 r))) = None" by simp_all
  }
  {
    fix st2 assume d: "dispose st1 r = (Inr (), st2)"
    from dispose_Inr(1,2)[OF d] dispose_Inr(4)[OF d, of t] dr ot
    show "hostValues (store st2 (data (objs st2 t))) = None"
      and "texture (store st2 (data (objs st2 t))) = None" by simp_all
  }
  {
    assume c: "texture (store st (data (objs st t))) = None \<or>
             (GPGPU st \<noteq> None \<and> TEXTURE_MANAGER st \<noteq> None)"
    have c1: "texture (store st1 (data (objs st1 t))) = None \<or>
             (GPGPU st1 \<noteq> None \<and> TEXTURE_MANAGER st1 \<noteq> None)"
      using c tx ot make_Inr(8,9)[OF m] by simp
    have c2: "texture (store st1 (data (objs st1 r))) = None \<or>
             (GPGPU st1 \<noteq> None \<and> TEXTURE_MANAGER st1 \<noteq> None)"
      using c tx dr make_Inr(8,9)[OF m] by simp
    show "\<exists>st2. dispose st1 t = (Inr (), st2)" using dispose_ok[OF c1] .
    show "\<exists>st2. dispose st1 r = (Inr (), st2)" using dispose_ok[OF c2] .
  }
next
  assume a: "tsize (objs st t) = sizeFromShape s \<and>
          storageOK (store st (data (objs st t))) (tsize (objs st t)) \<and>
          sizeFromShape ns = tsize (objs st t)"
  then have ok: "storageOK (store st (data (objs st t))) (tsize (objs st t))"
    and vs: "sizeFromShape ns = tsize (objs st t)" by blast+
  from make_ok[OF ok vs, of None] obtain r st1
    where m: "make st ns (data (objs st t)) None = (Inr r, st1)" by blast
  from sh i ne vs m have "reshape st t newShape = (Inr r, st1)"
    by (simp add: reshape_def arraysEqual_def)
  then show "\<exists>r st1. reshape st t newShape = (Inr r, st1)" by blast
qed

text \<open>
  C4, witness: the matrix of the examples holding texture 0, its reshape into
  \<open>[3, 2]\<close>, and the dispose of the matrix, which clears the texture of the reshape.
\<close>

theorem reshape_shares_storage_witness:
  "shape (objs uploadedState 0) = Some [2, 3] \<and>
   inferFromImplicitShape [3, 2] (tsize (objs uploadedState 0)) = Inr [3, 2] \<and>
   texture (store uploadedState (data (objs uploadedState 0))) = Some 0 \<and>
   fst (reshape uploadedState 0 [3, 2]) = Inr 1 \<and>
   data (objs (snd (reshape uploadedState 0 [3, 2])) 1)
     = data (objs (snd (reshape uploadedState 0 [3, 2])) 0) \<and>
   texture (store (snd (reshape uploadedState 0 [3, 2])) 0) = Some 0 \<and>
   fst (dispose (snd (reshape uploadedState 0 [3, 2])) 0) = Inr () \<and>
   hostValues (store (snd (dispose (snd (reshape uploadedState 0 [3, 2])) 0))
     (data (objs (snd (dispose (snd (reshape uploadedState 0 [3, 2])) 0)) 1))) = None \<and>
   texture (store (snd (dispose (snd (reshape uploadedState 0 [3, 2])) 0))
     (data (objs (snd (dispose (snd (reshape uploadedState 0 [3, 2])) 0)) 1))) = None"
proof -
  have sh: "shape (objs uploadedState 0) = Some [2, 3]"
    and ne: "[3, 2] \<noteq> [2, 3 :: int]"
    and al: "0 < nextObj uploadedState"
    and t0: "texture (store uploadedState (data (objs uploadedState 0))) = Some 0"
    by (simp_all add: uploadedState_view)
  have i: "inferFromImplicitShape [3, 2] (tsize (objs uploadedState 0)) = Inr [3, 2]"
    by (simp add: uploadedState_view inferFromImplicitShape_def)
  have w: "tsize (objs uploadedState 0) = sizeFromShape [2, 3] \<and>
           storageOK (store uploadedState (data (objs uploadedState 0)))
             (tsize (objs uploadedState 0)) \<and>
           sizeFromShape [3, 2] = tsize (objs uploadedState 0)"
    by (simp add: uploadedState_view storageOK_def sizeFromShape_def)
  have gp: "GPGPU uploadedState \<noteq> None \<and> TEXTURE_MANAGER uploadedState \<noteq> None"
    by (simp add: uploadedState_view)
  note th = reshape_shares_storage[OF sh i ne al]
  from th w obtain r st1 where rs: "reshape uploadedState 0 [3, 2] = (Inr r, st1)" by blast
  from th rs have dd: "data (objs st1 r) = data (objs st1 0)"
    and d0: "data (objs st1 0) = data (objs uploadedState 0)"
    and tx: "texture (store st1 (data (objs uploadedState 0)))
               = texture (store uploadedState (data (objs uploadedState 0)))"
    and dp: "\<forall>st2. dispose st1 0 = (Inr (), st2) \<longrightarrow>
               hostValues (store st2 (data (objs st2 r))) = None \<and>
               texture (store st2 (data (objs st2 r))) = None"
    by blast+
  from th rs gp obtain st2 where ds: "dispose st1 0 = (Inr (), st2)" by blast
  with dp have cl: "hostValues (store st2 (data (objs st2 r))) = None"
    "texture (store st2 (data (objs st2 r))) = None" by blast+
  from reshape_new[OF rs i sh ne] have "make uploadedState [3, 2] 0 None = (Inr r, st1)"
    by (simp add: uploadedState_view)
  from make_Inr(1)[OF this] have r1: "r = 1" by (simp add: uploadedState_view)
  have t1: "texture (store st1 0) = Some 0" using tx by (simp add: uploadedState_view)
  from rs have s1: "snd (reshape uploadedState 0 [3, 2]) = st1"
    and f1: "fst (reshape uploadedState 0 [3, 2]) = Inr r" by simp_all
  from ds have s2: "snd (dispose st1 0) = st2" and f2: "fst (dispose st1 0) = Inr ()"
    by simp_all
  show ?thesis
    unfolding s1 s2 f1 f2
    using sh i t0 dd t1 cl r1 by simp
qed

section \<open>Dispose\<close>

lemma getValues_cleared:
  assumes "hostValues (store st (data (objs st t))) = None"
      and "textureShapeRC (store st (data (objs st t))) = None"
  shows "getValues st t = (Inl (readError st), st)"
  using assms
  by (auto simp: getValues_def readError_def throwIfGPUNotInitialized_def Let_def
      split: option.splits)

lemma getValues_other:
  assumes "getValues st u = (Inr v, s1)"
  shows "objs s1 = objs st"
    and "data (objs st u) \<noteq> a \<Longrightarrow> store s1 a = store st a"
    and "hostValues (store st (data (objs st u))) \<noteq> None \<or>
         textureShapeRC (store st (data (objs st u))) \<noteq> None"
  using assms
  by (auto simp: getValues_def disposeTexture_def throwIfGPUNotInitialized_def Let_def
      split: option.splits sum.splits prod.splits)

lemma equals_tags_differ:
  "dtype (objs st t) \<noteq> dtype (objs st u) \<Longrightarrow> equals st t u = (Inr False, st)"
  by (simp add: equals_def)

lemma equals_this_cleared:
  assumes sh: "shape (objs st t) = None"
      and hv: "hostValues (store st (data (objs st t))) = None"
      and rc: "textureShapeRC (store st (data (objs st t))) = None"
      and dt: "dtype (objs st t) = dtype (objs st u)"
  shows "equals st t u =
           (case arraysEqualOnNull st None (shape (objs st u)) of
              Inl e \<Rightarrow> (Inl e, st)
            | Inr eq \<Rightarrow> if eq then (Inl (readError st), st) else (Inr False, st))"
  using sh dt getValues_cleared[OF hv rc]
  by (simp add: equals_def arraysEqual_def split: sum.splits)

lemma equals_other_cleared:
  assumes sh: "shape (objs st t) = None"
      and hv: "hostValues (store st (data (objs st t))) = None"
      and rc: "textureShapeRC (store st (data (objs st t))) = None"
  shows "fst (equals st u t) \<noteq> Inr True"
proof (cases "dtype (objs st u) = dtype (objs st t)")
  case False
  then show ?thesis by (simp add: equals_def)
next
  case True
  have ae: "arraysEqual (arraysEqualOnNull st) (shape (objs st u)) (shape (objs st t))
              = arraysEqualOnNull st (shape (objs st u)) None"
    using sh by (simp add: arraysEqual_def split: option.splits)
  show ?thesis
  proof (cases "arraysEqualOnNull st (shape (objs st u)) None")
    case (Inl e)
    with True ae show ?thesis by (simp add: equals_def)
  next
    case (Inr eq)
    show ?thesis
    proof (cases eq)
      case False
      with True ae Inr show ?thesis by (simp add: equals_def)
    next
      case eq: True
      obtain x s1 where g: "getValues st u = (x, s1)" by (cases "getValues st u")
      show ?thesis
      proof (cases x)
        case (Inl e)
        with True ae Inr eq g show ?thesis by (simp add: equals_def)
      next
        case (Inr v)
        with g have g1: "getValues st u = (Inr v, s1)" by simp
        from getValues_other(3)[OF g1] hv rc
        have ne: "data (objs st u) \<noteq> data (objs st t)" by auto
        from getValues_other(1,2)[OF g1] ne
        have "objs s1 = objs st" "store s1 (data (objs st t)) = store st (data (objs st t))"
          by simp_all
        with hv rc have "hostValues (store s1 (data (objs s1 t))) = None"
          "textureShapeRC (store s1 (data (objs s1 t))) = None" by simp_all
        from getValues_cleared[OF this] have "getValues s1 t = (Inl (readError s1), s1)" .
        with True ae \<open>arraysEqualOnNull st (shape (objs st u)) None = Inr eq\<close> eq g1
        show ?thesis by (simp add: equals_def)
      qed
    qed
  qed
qed

lemma equals_other_exact:
  assumes sh: "shape (objs st t) = None"
      and hv: "hostValues (store st (data (objs st t))) = None"
      and rc: "textureShapeRC (store st (data (objs st t))) = None"
      and dt: "dtype (objs st t) = dtype (objs st u)"
  shows "equals st u t =
           (case arraysEqualOnNull st (shape (objs st u)) None of
              Inl e \<Rightarrow> (Inl e, st)
            | Inr eq \<Rightarrow>
                if \<not> eq then (Inr False, st)
                else (case getValues st u of
                        (Inl e, s1) \<Rightarrow> (Inl e, s1)
                      | (Inr v, s1) \<Rightarrow> (Inl (readError s1), s1)))"
proof -
  have ae: "arraysEqual (arraysEqualOnNull st) (shape (objs st u)) (shape (objs st t))
              = arraysEqualOnNull st (shape (objs st u)) None"
    using sh by (simp add: arraysEqual_def split: option.splits)
  have g: "\<And>v s1. getValues st u = (Inr v, s1) \<Longrightarrow> getValues s1 t = (Inl (readError s1), s1)"
  proof -
    fix v s1 assume g1: "getValues st u = (Inr v, s1)"
    from getValues_other(3)[OF g1] hv rc
    have ne: "data (objs st u) \<noteq> data (objs st t)" by auto
    from getValues_other(1,2)[OF g1] ne
    have "objs s1 = objs st" "store s1 (data (objs st t)) = store st (data (objs st t))"
      by simp_all
    with hv rc have "hostValues (store s1 (data (objs s1 t))) = None"
      "textureShapeRC (store s1 (data (objs s1 t))) = None" by simp_all
    from getValues_cleared[OF this] show "getValues s1 t = (Inl (readError s1), s1)" .
  qed
  show ?thesis
    using dt ae g
    by (auto simp: equals_def split: sum.splits prod.splits)
qed

text \<open>
  C7, as amended. In the state that a completed \<open>dispose\<close> returns, for an instance
  whose data object had no layout without a texture: the shape, the host values, the
  texture and the layout are cleared and a texture that was held is released with its
  layout; \<open>getValues\<close> and every \<open>get\<close> throw, \<open>UninitializedBackendError\<close> when
  the GPU is not initialised and a \<open>TypeError\<close> otherwise (the error \<open>readError\<close>),
  and leave the state as it is; \<open>equals\<close> returns \<open>false\<close> when the two \<open>dtype\<close>s
  differ and never returns \<open>true\<close>: with equal \<open>dtype\<close>s it does what
  \<open>util.arraysEqual\<close> does on the cleared shape, throwing as \<open>getValues\<close> does
  should that call return \<open>true\<close>. This holds for the disposed instance as the
  receiver and as the argument of \<open>equals\<close>.
\<close>

theorem disposed_reads_rejected:
  assumes d: "dispose st t = (Inr (), st1)"
      and c: "texture (store st (data (objs st t))) = None \<longrightarrow>
              textureShapeRC (store st (data (objs st t))) = None"
  shows "shape (objs st1 t) = None \<and>
         hostValues (store st1 (data (objs st1 t))) = None \<and>
         texture (store st1 (data (objs st1 t))) = None \<and>
         textureShapeRC (store st1 (data (objs st1 t))) = None \<and>
         (\<forall>h. texture (store st (data (objs st t))) = Some h \<longrightarrow>
            (\<exists>m m1. TEXTURE_MANAGER st = Some m \<and> TEXTURE_MANAGER st1 = Some m1 \<and>
               released m1 = (Some h, textureShapeRC (store st (data (objs st t)))) # released m)) \<and>
         readError st1 = readError st \<and>
         getValues st1 t = (Inl (readError st1), st1) \<and>
         Scalar_get st1 t = (Inl (readError st1), st1) \<and>
         Array1D_get st1 t i = (Inl (readError st1), st1) \<and>
         Array2D_get st1 t i j = (Inl (readError st1), st1) \<and>
         NDArray_get st1 t locs = (Inl (readError st1), st1) \<and>
         (dtype (objs st1 t) \<noteq> dtype (objs st1 u) \<longrightarrow>
            equals st1 t u = (Inr False, st1) \<and> equals st1 u t = (Inr False, st1)) \<and>
         (dtype (objs st1 t) = dtype (objs st1 u) \<longrightarrow>
            equals st1 t u =
              (case arraysEqualOnNull st1 None (shape (objs st1 u)) of
                 Inl e \<Rightarrow> (Inl e, st1)
               | Inr eq \<Rightarrow> if eq then (Inl (readError st1), st1) else (Inr False, st1)) \<and>
            equals st1 u t =
              (case arraysEqualOnNull st1 (shape (objs st1 u)) None of
                 Inl e \<Rightarrow> (Inl e, st1)
               | Inr eq \<Rightarrow>
                   if \<not> eq then (Inr False, st1)
                   else (case getValues st1 u of
                           (Inl e, s1) \<Rightarrow> (Inl e, s1)
                         | (Inr v, s1) \<Rightarrow> (Inl (readError s1), s1)))) \<and>
         fst (equals st1 t u) \<noteq> Inr True \<and>
         fst (equals st1 u t) \<noteq> Inr True"
proof -
  have dd: "data (objs st1 t) = data (objs st t)" using dispose_Inr(4)[OF d] .
  have sh: "shape (objs st1 t) = None" using dispose_Inr(3)[OF d] .
  have hv: "hostValues (store st1 (data (objs st1 t))) = None"
    using dispose_Inr(1)[OF d] dd by simp
  have tx: "texture (store st1 (data (objs st1 t))) = None"
    using dispose_Inr(2)[OF d] dd by simp
  have rc: "textureShapeRC (store st1 (data (objs st1 t))) = None"
    using dispose_Inr(8)[OF d c] dd by simp
  have rel: "\<forall>h. texture (store st (data (objs st t))) = Some h \<longrightarrow>
            (\<exists>m m1. TEXTURE_MANAGER st = Some m \<and> TEXTURE_MANAGER st1 = Some m1 \<and>
               released m1 = (Some h, textureShapeRC (store st (data (objs st t)))) # released m)"
    using d
    by (auto simp: dispose_def disposeTexture_def throwIfGPUNotInitialized_def Let_def
        releaseTexture_def split: if_splits sum.splits option.splits)
  have re: "readError st1 = readError st"
    using dispose_Inr(7,10)[OF d] by (simp add: readError_def)
  note gv = getValues_cleared[OF hv rc]
  have g1: "Scalar_get st1 t = (Inl (readError st1), st1)"
    and g2: "Array1D_get st1 t i = (Inl (readError st1), st1)"
    and g3: "Array2D_get st1 t i j = (Inl (readError st1), st1)"
    and g4: "NDArray_get st1 t locs = (Inl (readError st1), st1)"
    using gv
    by (simp_all add: Scalar_get_def Array1D_get_def Array2D_get_def NDArray_get_def Let_def)
  have e1: "dtype (objs st1 t) \<noteq> dtype (objs st1 u) \<longrightarrow>
            equals st1 t u = (Inr False, st1) \<and> equals st1 u t = (Inr False, st1)"
    by (auto simp: equals_def)
  have e2: "dtype (objs st1 t) = dtype (objs st1 u) \<longrightarrow>
            equals st1 t u =
              (case arraysEqualOnNull st1 None (shape (objs st1 u)) of
                 Inl e \<Rightarrow> (Inl e, st1)
               | Inr eq \<Rightarrow> if eq then (Inl (readError st1), st1) else (Inr False, st1)) \<and>
            equals st1 u t =
              (case arraysEqualOnNull st1 (shape (objs st1 u)) None of
                 Inl e \<Rightarrow> (Inl e, st1)
               | Inr eq \<Rightarrow>
                   if \<not> eq then (Inr False, st1)
                   else (case getValues st1 u of
                           (Inl e, s1) \<Rightarrow> (Inl e, s1)
                         | (Inr v, s1) \<Rightarrow> (Inl (readError s1), s1)))"
    using equals_this_cleared[OF sh hv rc] equals_other_exact[OF sh hv rc] by blast
  have e3: "fst (equals st1 t u) \<noteq> Inr True"
  proof (cases "dtype (objs st1 t) = dtype (objs st1 u)")
    case True
    with equals_this_cleared[OF sh hv rc True] show ?thesis by (auto split: sum.splits)
  next
    case False
    with e1 show ?thesis by simp
  qed
  have e4: "fst (equals st1 u t) \<noteq> Inr True"
    using equals_other_cleared[OF sh hv rc] .
  show ?thesis
    by (intro conjI) (rule sh hv tx rc rel re gv g1 g2 g3 g4 e1 e2 e3 e4)+
qed

text \<open>
  C7, the claim as stated fails. \<open>equals\<close> compares the \<open>dtype\<close>s first: on a
  disposed instance and an instance of another \<open>dtype\<close> it returns \<open>false\<close>. And
  the rejection does not last: after \<open>r = v.reshape([3, 2])\<close>, \<open>v.dispose()\<close> and
  \<open>r.getTexture()\<close>, which assigns a layout and a texture to the shared data object
  before it copies, \<open>v.getValues()\<close> returns the content of that texture.
\<close>

lemma reuploadedState_view:
  "fst (dispose (snd (reshape vectorState 0 [3, 2])) 0) = Inr ()"
  "objs reuploadedState 0 = \<lparr>cls_of = Array1D, shape = None, tsize = 6, strides = [],
     data = 0, dtype = None, stride0 = None\<rparr>"
  "store reuploadedState 0
     = \<lparr>hostValues = None, texture = Some 0, textureShapeRC = Some (1, 6)\<rparr>"
  "GPGPU reuploadedState = Some exampleContext"
  "TEXTURE_MANAGER reuploadedState = Some \<lparr>nextTexture = 1, available = 3, released = []\<rparr>"
  by (simp_all add: reuploadedState_def reshape_eval dispose_def vectorState_view
      getTexture_def uploadToGPU_def throwIfGPUNotInitialized_def acquireTexture_def
      uploadMatrixToTexture_def exampleContext_def exampleManager_def)

theorem disposed_reads_counterexample:
  "fst (dispose pairState 0) = Inr () \<and>
   shape (objs (snd (dispose pairState 0)) 0) = None \<and>
   hostValues (store (snd (dispose pairState 0)) 0) = None \<and>
   equals (snd (dispose pairState 0)) 0 1 = (Inr False, snd (dispose pairState 0)) \<and>
   fst (dispose (snd (reshape vectorState 0 [3, 2])) 0) = Inr () \<and>
   shape (objs reuploadedState 0) = None \<and>
   fst (getValues reuploadedState 0) = Inr \<lparr>kind = Float32Array, elems = []\<rparr>"
proof -
  have a: "fst (dispose pairState 0) = Inr () \<and>
   shape (objs (snd (dispose pairState 0)) 0) = None \<and>
   hostValues (store (snd (dispose pairState 0)) 0) = None \<and>
   equals (snd (dispose pairState 0)) 0 1 = (Inr False, snd (dispose pairState 0))"
    by (simp add: dispose_def equals_def Let_def pairState_view)
  have b: "fst (getValues reuploadedState 0) = Inr \<lparr>kind = Float32Array, elems = []\<rparr>"
    by (simp add: getValues_def disposeTexture_def throwIfGPUNotInitialized_def
        downloadMatrixFromTexture_def Let_def reuploadedState_view exampleContext_def)
  from a b reuploadedState_view(1,2) show ?thesis by simp
qed

text \<open>
  C7, witness: the first of the two vectors of the examples, disposed, and the matrix
  holding texture 0, disposed.
\<close>

theorem disposed_reads_rejected_witness:
  "dispose pairState 0 = (Inr (), snd (dispose pairState 0)) \<and>
   texture (store pairState (data (objs pairState 0))) = None \<and>
   textureShapeRC (store pairState (data (objs pairState 0))) = None \<and>
   shape (objs (snd (dispose pairState 0)) 0) = None \<and>
   getValues (snd (dispose pairState 0)) 0 = (Inl TypeError, snd (dispose pairState 0)) \<and>
   Array1D_get (snd (dispose pairState 0)) 0 1 = (Inl TypeError, snd (dispose pairState 0)) \<and>
   equals (snd (dispose pairState 0)) 0 0 = (Inl TypeError, snd (dispose pairState 0)) \<and>
   equals (snd (dispose pairState 0)) 0 1 = (Inr False, snd (dispose pairState 0)) \<and>
   dispose uploadedState 0 = (Inr (), snd (dispose uploadedState 0)) \<and>
   texture (store uploadedState (data (objs uploadedState 0))) = Some 0 \<and>
   TEXTURE_MANAGER (snd (dispose uploadedState 0))
     = Some \<lparr>nextTexture = 1, available = 4, released = [(Some 0, Some (1, 6))]\<rparr> \<and>
   texture (store (snd (dispose uploadedState 0)) 0) = None \<and>
   Array2D_get (snd (dispose uploadedState 0)) 0 1 2
     = (Inl TypeError, snd (dispose uploadedState 0))"
proof -
  let ?st1 = "snd (dispose pairState 0)"
  let ?st2 = "snd (dispose uploadedState 0)"
  have d: "dispose pairState 0 = (Inr (), ?st1)"
    by (simp add: dispose_def Let_def pairState_view)
  have tx: "texture (store pairState (data (objs pairState 0))) = None"
    and rc: "textureShapeRC (store pairState (data (objs pairState 0))) = None"
    by (simp_all add: pairState_view)
  from tx rc have c: "texture (store pairState (data (objs pairState 0))) = None \<longrightarrow>
              textureShapeRC (store pairState (data (objs pairState 0))) = None" by simp
  have g: "readError pairState = TypeError"
    "dtype (objs ?st1 0) = Some float32" "dtype (objs ?st1 1) = Some int32"
    "arraysEqualOnNull ?st1 None None = Inl TypeError"
    by (simp_all add: dispose_def Let_def pairState_view readError_def pairState_def
        example_defs)
  note th = disposed_reads_rejected[OF d c, of 1 _ _ 1]
  note th0 = disposed_reads_rejected[OF d c, of 1 _ _ 0]
  from th have sh: "shape (objs ?st1 0) = None" by simp
  from th g have re: "readError ?st1 = TypeError" by simp
  from th re have gv: "getValues ?st1 0 = (Inl TypeError, ?st1)" by simp
  from th re have a1: "Array1D_get ?st1 0 1 = (Inl TypeError, ?st1)" by simp
  from th0 sh g have e0: "equals ?st1 0 0 = (Inl TypeError, ?st1)" by simp
  from th g have e1: "equals ?st1 0 1 = (Inr False, ?st1)" by simp
  have d2: "dispose uploadedState 0 = (Inr (), ?st2)"
    by (simp add: dispose_def disposeTexture_def throwIfGPUNotInitialized_def Let_def
        uploadedState_view)
  have t2: "texture (store uploadedState (data (objs uploadedState 0))) = Some 0"
    by (simp add: uploadedState_view)
  then have c2: "texture (store uploadedState (data (objs uploadedState 0))) = None \<longrightarrow>
              textureShapeRC (store uploadedState (data (objs uploadedState 0))) = None" by simp
  note th2 = disposed_reads_rejected[OF d2 c2, of 1 2]
  have d0: "data (objs ?st2 0) = 0"
    using dispose_Inr(4)[OF d2, of 0] by (simp add: uploadedState_view)
  have g2: "readError uploadedState = TypeError"
    by (simp add: readError_def uploadedState_view)
  have tm: "TEXTURE_MANAGER ?st2
     = Some \<lparr>nextTexture = 1, available = 4, released = [(Some 0, Some (1, 6))]\<rparr>"
    by (simp add: dispose_def disposeTexture_def throwIfGPUNotInitialized_def Let_def
        uploadedState_view releaseTexture_def)
  from th2 d0 have t3: "texture (store ?st2 0) = None" by simp
  from th2 g2 have a2: "Array2D_get ?st2 0 1 2 = (Inl TypeError, ?st2)" by simp
  show ?thesis
    by (intro conjI) (rule d tx rc sh gv a1 e0 e1 d2 t2 tm t3 a2)+
qed

section \<open>The matrix scenario\<close>

lemma Array2D_new_23:
  "Array2D_new st [2, 3] [1, 2, 3, 4, 5, 6] dt =
     (Inr (nextObj st),
      st\<lparr>store := (store st)(nextData st :=
             \<lparr>hostValues = Some \<lparr>kind = Float32Array, elems = [1, 2, 3, 4, 5, 6]\<rparr>,
              texture = None, textureShapeRC = None\<rparr>),
         nextData := Suc (nextData st),
         objs := (objs st)(nextObj st :=
             \<lparr>cls_of = Array2D, shape = Some [2, 3], tsize = 6, strides = [Num 3],
              data = nextData st, dtype = dt, stride0 = Some (Num 3)\<rparr>),
         nextObj := Suc (nextObj st)\<rparr>)"
  by (simp add: Array2D_new_def newData_def Array2D_ctor_def NDArray_ctor_def Let_def
      sizeFromShape_def computeStrides_def)

text \<open>
  C9. In any state, the matrix \<open>Array2D.new([2, 3], [1, 2, 3, 4, 5, 6])\<close> has the row
  stride 3, \<open>get(1, 2)\<close> returns 6, and after \<open>set(9, 0, 0)\<close>, \<open>get(0, 0)\<close> returns 9.
\<close>

theorem matrix_get_set_scenario:
  "fst (Array2D_new st [2, 3] [1, 2, 3, 4, 5, 6] dt) = Inr (nextObj st) \<and>
   stride0 (objs (snd (Array2D_new st [2, 3] [1, 2, 3, 4, 5, 6] dt)) (nextObj st)) = Some (Num 3) \<and>
   fst (Array2D_get (snd (Array2D_new st [2, 3] [1, 2, 3, 4, 5, 6] dt)) (nextObj st) 1 2)
     = Inr (Some 6) \<and>
   fst (Array2D_set (snd (Array2D_new st [2, 3] [1, 2, 3, 4, 5, 6] dt)) (nextObj st) 9 0 0)
     = Inr () \<and>
   fst (Array2D_get
          (snd (Array2D_set (snd (Array2D_new st [2, 3] [1, 2, 3, 4, 5, 6] dt)) (nextObj st) 9 0 0))
          (nextObj st) 0 0)
     = Inr (Some 9)"
  by (simp add: Array2D_new_23 Array2D_get_def Array2D_set_def getValues_def offset2D_def
      readAt_def writeAt_def Let_def jsMul_exact jsAdd_exact)

text \<open>
  C9, witness: the scenario in the empty state.
\<close>

theorem matrix_get_set_scenario_witness:
  "fst (Array2D_new emptyState [2, 3] [1, 2, 3, 4, 5, 6] None) = Inr 0 \<and>
   fst (Array2D_get (snd (Array2D_new emptyState [2, 3] [1, 2, 3, 4, 5, 6] None)) 0 1 2)
     = Inr (Some 6) \<and>
   fst (Array2D_get
          (snd (Array2D_set (snd (Array2D_new emptyState [2, 3] [1, 2, 3, 4, 5, 6] None)) 0 9 0 0))
          0 0 0)
     = Inr (Some 9)"
proof -
  have n: "nextObj emptyState = 0" by (simp add: emptyState_def)
  show ?thesis
    using matrix_get_set_scenario[of emptyState None] unfolding n by simp
qed

section \<open>The buffers of the factories\<close>

lemma sizeFromShape_nonneg: "\<forall>d\<in>set shp. 0 \<le> d \<Longrightarrow> 0 \<le> sizeFromShape shp"
  unfolding sizeFromShape_def by (induction shp) simp_all

lemma zeros_ok:
  assumes "\<forall>d\<in>set shp. 0 \<le> d"
  shows "\<exists>r st1. zeros st shp dt = (Inr r, st1)"
proof -
  let ?vs = "\<lparr>kind = Float32Array, elems = replicate (nat (sizeFromShape shp)) 0\<rparr>"
  let ?st0 = "st\<lparr>store := (store st)(nextData st :=
                 \<lparr>hostValues = Some ?vs, texture = None, textureShapeRC = None\<rparr>),
               nextData := Suc (nextData st)\<rparr>"
  from sizeFromShape_nonneg[OF assms] have nn: "0 \<le> sizeFromShape shp" .
  then have ok: "storageOK (store ?st0 (nextData st)) (sizeFromShape shp)"
    by (simp add: storageOK_def)
  from make_ok[OF ok refl, of dt] nn show ?thesis
    by (auto simp: zeros_def newData_def Let_def)
qed

lemma getValues_objs: "getValues st t = (r, st1) \<Longrightarrow> objs st1 = objs st"
  by (auto simp: getValues_def disposeTexture_def Let_def
      split: option.splits sum.splits prod.splits)

lemma DataType_other: "k \<noteq> float32 \<Longrightarrow> Float32Array \<noteq> DataType k"
  by (cases k) simp_all

text \<open>
  C10. \<open>zeros\<close> returns for every shape of non-negative dimensions and every tag. The
  instance that \<open>zeros\<close> returns has the given \<open>dtype\<close> and a host buffer
  that is a \<open>Float32Array\<close>, and the instance that \<open>like\<close> returns has the other
  instance's \<open>dtype\<close> and a host buffer that is a \<open>Float32Array\<close>: for the tags
  \<open>int32\<close> and \<open>bool\<close> the buffer is not of the class the tag maps to.
\<close>

theorem factories_allocate_float32:
  "((\<forall>d\<in>set shp. 0 \<le> d) \<longrightarrow> (\<exists>r0 st0. zeros st shp dt = (Inr r0, st0))) \<and>
   (zeros st shp dt = (Inr r, st1) \<longrightarrow>
      dtype (objs st1 r) = dt \<and>
      (\<exists>v. hostValues (store st1 (data (objs st1 r))) = Some v \<and> kind v = Float32Array \<and>
           (\<forall>k. dt = Some k \<and> k \<noteq> float32 \<longrightarrow> kind v \<noteq> DataType k))) \<and>
   (like st another = (Inr r2, st2) \<longrightarrow>
      dtype (objs st2 r2) = dtype (objs st another) \<and>
      (\<exists>v. hostValues (store st2 (data (objs st2 r2))) = Some v \<and> kind v = Float32Array \<and>
           (\<forall>k. dtype (objs st another) = Some k \<and> k \<noteq> float32 \<longrightarrow> kind v \<noteq> DataType k)))"
proof (intro conjI impI)
  assume "\<forall>d\<in>set shp. 0 \<le> d"
  then show "\<exists>r0 st0. zeros st shp dt = (Inr r0, st0)" by (rule zeros_ok)
next
  assume z: "zeros st shp dt = (Inr r, st1)"
  let ?vs = "\<lparr>kind = Float32Array, elems = replicate (nat (sizeFromShape shp)) 0\<rparr>"
  let ?st0 = "st\<lparr>store := (store st)(nextData st :=
                 \<lparr>hostValues = Some ?vs, texture = None, textureShapeRC = None\<rparr>),
               nextData := Suc (nextData st)\<rparr>"
  from z have m: "make ?st0 shp (nextData st) dt = (Inr r, st1)"
    by (simp add: zeros_def newData_def Let_def split: if_splits)
  show "dtype (objs st1 r) = dt" using make_Inr(4)[OF m] .
  have "hostValues (store st1 (data (objs st1 r))) = Some ?vs"
    using make_Inr(3)[OF m] make_Inr(6)[OF m, of "nextData st"] by simp
  then show "\<exists>v. hostValues (store st1 (data (objs st1 r))) = Some v \<and> kind v = Float32Array \<and>
           (\<forall>k. dt = Some k \<and> k \<noteq> float32 \<longrightarrow> kind v \<noteq> DataType k)"
    by (simp add: DataType_other)
next
  assume l: "like st another = (Inr r2, st2)"
  from l obtain v sta shp where g: "getValues st another = (Inr v, sta)"
    and sh: "shape (objs sta another) = Some shp"
    and m: "make (sta\<lparr>store := (store sta)(nextData sta :=
                 \<lparr>hostValues = Some \<lparr>kind = Float32Array, elems = elems v\<rparr>,
                  texture = None, textureShapeRC = None\<rparr>),
               nextData := Suc (nextData sta)\<rparr>) shp (nextData sta) (dtype (objs sta another))
             = (Inr r2, st2)"
    by (auto simp: like_def newData_def Let_def split: prod.splits sum.splits option.splits)
  have o: "objs sta = objs st" using getValues_objs[OF g] .
  show "dtype (objs st2 r2) = dtype (objs st another)" using make_Inr(4)[OF m] o by simp
  have "hostValues (store st2 (data (objs st2 r2)))
          = Some \<lparr>kind = Float32Array, elems = elems v\<rparr>"
    using make_Inr(3)[OF m] make_Inr(6)[OF m, of "nextData sta"] by simp
  then show "\<exists>v. hostValues (store st2 (data (objs st2 r2))) = Some v \<and> kind v = Float32Array \<and>
           (\<forall>k. dtype (objs st another) = Some k \<and> k \<noteq> float32 \<longrightarrow> kind v \<noteq> DataType k)"
    by (simp add: DataType_other)
qed

text \<open>
  C10, witness: \<open>zeros([2], 'int32')\<close>, and \<open>like\<close> of the \<open>int32\<close> vector of the examples.
\<close>

theorem factories_allocate_float32_witness:
  "fst (zeros gpuState [2] (Some int32)) = Inr 0 \<and>
   dtype (objs (snd (zeros gpuState [2] (Some int32))) 0) = Some int32 \<and>
   hostValues (store (snd (zeros gpuState [2] (Some int32))) 0)
     = Some \<lparr>kind = Float32Array, elems = [0, 0]\<rparr> \<and>
   DataType int32 = Int32Array \<and>
   fst (like pairState 1) = Inr 2 \<and>
   dtype (objs (snd (like pairState 1)) 2) = Some int32 \<and>
   hostValues (store (snd (like pairState 1)) 2)
     = Some \<lparr>kind = Float32Array, elems = [0, 0]\<rparr>"
proof -
  have z: "zeros gpuState [2] (Some int32) = (Inr 0, snd (zeros gpuState [2] (Some int32)))"
    by (simp add: example_defs numeral_eq_Suc)
  have l: "like pairState 1 = (Inr 2, snd (like pairState 1))"
    by (simp add: like_def getValues_def pairState_view newData_def make_def Array1D_ctor_def
        NDArray_ctor_def Let_def sizeFromShape_def pairState_def example_defs numeral_eq_Suc)
  note th = factories_allocate_float32[where st = gpuState and shp = "[2]" and dt = "Some int32"
      and r = 0 and ?st1.0 = "snd (zeros gpuState [2] (Some int32))"]
  note th2 = factories_allocate_float32[where st = pairState and another = 1 and ?r2.0 = 2
      and ?st2.0 = "snd (like pairState 1)"]
  have a: "dtype (objs (snd (zeros gpuState [2] (Some int32))) 0) = Some int32"
    using th z by simp
  have b: "dtype (objs (snd (like pairState 1)) 2) = Some int32"
    using th2 l by (simp add: pairState_view)
  have c: "hostValues (store (snd (zeros gpuState [2] (Some int32))) 0)
     = Some \<lparr>kind = Float32Array, elems = [0, 0]\<rparr>"
    by (simp add: example_defs numeral_eq_Suc)
  have d: "hostValues (store (snd (like pairState 1)) 2)
     = Some \<lparr>kind = Float32Array, elems = [0, 0]\<rparr>"
    by (simp add: like_def getValues_def pairState_view newData_def make_def Array1D_ctor_def
        NDArray_ctor_def Let_def sizeFromShape_def pairState_def example_defs numeral_eq_Suc)
  have z': "fst (zeros gpuState [2] (Some int32)) = Inr 0" using z by (metis fst_conv)
  have l': "fst (like pairState 1) = Inr 2" using l by (metis fst_conv)
  have e: "DataType int32 = Int32Array" by simp
  show ?thesis
    by (intro conjI) (rule z' a c e l' b d)+
qed

end
